theory Spec2Isabelle
  imports Complex_Main "HOL-Library.Word"
begin

section \<open>Values, errors and the data model of package dal\<close>

text \<open>
  A Go \<open>interface{}\<close> value, as far as the mapper looks at it: the nil interface, a few
  comparable scalars, and a slice (a value of a type that \<open>==\<close> cannot compare).
\<close>

datatype gvalue = VNil | VInt int | VStr string | VBool bool | VSlice "gvalue list"

text \<open>
  Go errors. \<open>Errorf\<close> records a call of \<open>fmt.Errorf\<close> by its format string and its
  arguments; \<open>ParseError\<close> is the error of a malformed filter string, with the text at
  fault; \<open>Panic\<close> is a run-time panic, which the model returns as a value.
\<close>

datatype error =
    CollectionNotFound
  | ExistsError
  | OtherError string
  | Errorf string "fmtarg list"
  | ParseError string
  | Panic string
and fmtarg = ArgError error | ArgString string | ArgTypeOf string

text \<open>
  Modelled from the spec: \<open>dal.IsCollectionNotFoundErr\<close> and \<open>dal.IsExistError\<close> are
  not under src/; the spec names the two error kinds (NotFoundError for an absent
  collection, ExistsError for a duplicate creation). A nil error is neither.
\<close>

definition IsCollectionNotFoundErr :: "error option \<Rightarrow> bool" where
  "IsCollectionNotFoundErr err = (err = Some CollectionNotFound)"

definition IsExistError :: "error \<Rightarrow> bool" where
  "IsExistError err = (err = ExistsError)"

text \<open>
  Modelled from the spec: the declaration of \<open>dal.Field\<close> is not under src/; only its
  \<open>Name\<close> is read by the code modelled here.
\<close>

record Field =
  FieldName :: string
  FieldType :: string
  Required :: bool

record CollectionOptions =
  FieldsUnordered :: bool

text \<open>
  \<open>dal.Collection\<close>. The three index members are the ones server.go assigns
  (\<open>IndexName\<close>, \<open>IndexCompoundFields\<close>, \<open>IndexCompoundFieldJoiner\<close>).
\<close>

record Collection =
  Name :: string
  Fields :: "Field list"
  IdentityField :: string
  IdentityFieldType :: string
  IndexName :: string
  IndexCompoundFields :: "string list"
  IndexCompoundFieldJoiner :: string
  Options :: "CollectionOptions option"

text \<open>\<open>dal.Record\<close>: the identity value and the field mapping (\<open>Fields\<close> in the source).\<close>

record Record =
  ID :: gvalue
  RFields :: "string \<rightharpoonup> gvalue"

definition NewRecord :: "gvalue \<Rightarrow> Record" where
  "NewRecord ident = \<lparr>ID = ident, RFields = Map.empty\<rparr>"

definition Set_field :: "Record \<Rightarrow> string \<Rightarrow> gvalue \<Rightarrow> Record" where
  "Set_field r k v = r\<lparr>RFields := (RFields r)(k \<mapsto> v)\<rparr>"

section \<open>Collection.MakeRecord (dal/collection.go)\<close>

text \<open>
  What \<open>getFieldsForStruct\<close> (not under src/) hands to the loop for one tagged struct
  field: the field's value and the two flags the loop reads.
\<close>

record fieldDescr =
  FieldValue :: gvalue
  Identity :: bool
  OmitEmpty :: bool

text \<open>
  The input of \<open>MakeRecord\<close>. \<open>validatePtrToStructType\<close> rejects anything that is not a
  pointer to a struct, with an error. For a struct, \<open>getFieldsForStruct\<close> yields an error
  or the map from tag name to descriptor; it is given here as an association list in the
  order in which \<open>range\<close> happens to visit the map (Go leaves that order open, so a
  property of \<open>MakeRecord\<close> has to hold for every order). \<open>FieldOk\<close> looks a struct field
  up by its Go name.
\<close>

record StructValue =
  getFieldsForStruct :: "error + (string \<times> fieldDescr) list"
  FieldOk :: "string \<Rightarrow> gvalue option"

datatype input = NotPtrToStruct error | PtrToStruct StructValue

text \<open>
  \<open>value == reflect.Zero(reflect.TypeOf(value)).Interface()\<close>: \<open>reflect.Zero\<close> panics on the
  nil type of a nil interface, and \<open>==\<close> panics on two values of a slice type.
\<close>

fun equalsZero :: "gvalue \<Rightarrow> error + bool" where
  "equalsZero VNil = Inl (Panic ''reflect: Zero(nil)'')"
| "equalsZero (VInt n) = Inr (n = 0)"
| "equalsZero (VStr s) = Inr (s = [])"
| "equalsZero (VBool b) = Inr (\<not> b)"
| "equalsZero (VSlice xs) = Inl (Panic ''runtime error: comparing uncomparable type'')"

text \<open>The first loop (lines 101-115): skip, set the identity, or set a declared field.\<close>

fun MakeRecord_fields ::
  "string list \<Rightarrow> (string \<times> fieldDescr) list \<Rightarrow> Record \<Rightarrow> error + Record" where
  "MakeRecord_fields actualFieldNames [] record = Inr record"
| "MakeRecord_fields actualFieldNames ((tagName, d) # rest) record =
     (case (if OmitEmpty d then equalsZero (FieldValue d) else Inr False) of
        Inl e \<Rightarrow> Inl e
      | Inr True \<Rightarrow> MakeRecord_fields actualFieldNames rest record
      | Inr False \<Rightarrow>
          (if Identity d
           then MakeRecord_fields actualFieldNames rest (record\<lparr>ID := FieldValue d\<rparr>)
           else if tagName \<in> set actualFieldNames
           then MakeRecord_fields actualFieldNames rest (Set_field record tagName (FieldValue d))
           else MakeRecord_fields actualFieldNames rest record))"

text \<open>The second loop (lines 119-127): the first tag equal to the collection's identity field.\<close>

definition MakeRecord_identityField ::
  "Collection \<Rightarrow> (string \<times> fieldDescr) list \<Rightarrow> Record \<Rightarrow> Record" where
  "MakeRecord_identityField self fieldMap record =
     (if ID record = VNil
      then (case find (\<lambda>(tagName, d). tagName = IdentityField self) fieldMap of
              None \<Rightarrow> record
            | Some (tagName, d) \<Rightarrow>
                record\<lparr>ID := FieldValue d, RFields := (RFields record)(tagName := None)\<rparr>)
      else record)"

text \<open>The last step (lines 130-135): the struct field whose Go name is \<open>ID\<close>.\<close>

definition MakeRecord_fieldNamedID :: "StructValue \<Rightarrow> Record \<Rightarrow> Record" where
  "MakeRecord_fieldNamedID s record =
     (if ID record = VNil
      then (case FieldOk s ''ID'' of
              None \<Rightarrow> record
            | Some v \<Rightarrow> record\<lparr>ID := v, RFields := (RFields record)(''ID'' := None)\<rparr>)
      else record)"

definition MakeRecord :: "Collection \<Rightarrow> input \<Rightarrow> error + Record" where
  "MakeRecord self inp =
     (case inp of
        NotPtrToStruct err \<Rightarrow> Inl err
      | PtrToStruct s \<Rightarrow>
          (let record = NewRecord VNil;
               actualFieldNames = map FieldName (Fields self)
           in case getFieldsForStruct s of
                Inl err \<Rightarrow> Inl err
              | Inr fieldMap \<Rightarrow>
                  (case MakeRecord_fields actualFieldNames fieldMap record of
                     Inl e \<Rightarrow> Inl e
                   | Inr record1 \<Rightarrow>
                       Inr (MakeRecord_fieldNamedID s
                              (MakeRecord_identityField self fieldMap record1)))))"

section \<open>What the loops of MakeRecord select\<close>

text \<open>
  A closed form of the identity the three steps of \<open>MakeRecord\<close> leave in the record,
  used to state what the code does for every input: (a) of the fields annotated as
  identity that the first loop does not skip as empty, the one it visits last; (b) the
  field whose tag equals the collection's identity field; (c) the struct field named
  \<open>ID\<close>. Each later step runs only while the ID is still nil.
\<close>

definition skipped :: "fieldDescr \<Rightarrow> bool" where
  "skipped d = (OmitEmpty d \<and> equalsZero (FieldValue d) = Inr True)"

definition explicitIdentity :: "(string \<times> fieldDescr) list \<Rightarrow> gvalue" where
  "explicitIdentity fieldMap =
     (case filter (\<lambda>(tagName, d). Identity d \<and> \<not> skipped d) fieldMap of
        [] \<Rightarrow> VNil
      | x # xs \<Rightarrow> FieldValue (snd (last (x # xs))))"

definition namedIdentity :: "Collection \<Rightarrow> (string \<times> fieldDescr) list \<Rightarrow> gvalue" where
  "namedIdentity self fieldMap =
     (case map_of fieldMap (IdentityField self) of None \<Rightarrow> VNil | Some d \<Rightarrow> FieldValue d)"

definition literalID :: "StructValue \<Rightarrow> gvalue" where
  "literalID s = (case FieldOk s ''ID'' of None \<Rightarrow> VNil | Some v \<Rightarrow> v)"

definition resolveIdentity :: "Collection \<Rightarrow> StructValue \<Rightarrow> (string \<times> fieldDescr) list \<Rightarrow> gvalue" where
  "resolveIdentity self s fieldMap =
     (if explicitIdentity fieldMap \<noteq> VNil then explicitIdentity fieldMap
      else if namedIdentity self fieldMap \<noteq> VNil then namedIdentity self fieldMap
      else literalID s)"

section \<open>Filters and requests\<close>

text \<open>
  Modelled from the spec: package filter is not under src/. The spec gives a Filter as
  criteria, sort, projection, limit and offset, and a Condition as field, operator and
  values.
\<close>

datatype Operator = Is | Not | Contains | Prefix | Suffix | Gt | Gte | Lt | Lte

record Criterion =
  CField :: string
  COperator :: Operator
  CValues :: "string list"

record Filter =
  Criteria :: "Criterion list"
  Sort :: "string list"
  FFields :: "string list"
  Limit :: int
  Offset :: int

definition filter_New :: Filter where
  "filter_New = \<lparr>Criteria = [], Sort = [], FFields = [], Limit = 0, Offset = 0\<rparr>"

text \<open>
  An HTTP request as the handlers read it: the method, the route parameters
  (\<open>vestigo.Param\<close>), the URL query parameters (\<open>httputil.Q\<close>), and what
  \<open>httputil.ParseRequest\<close> makes of the body when it is decoded into a map.
\<close>

record Request =
  Method :: string
  RouteParams :: "string \<rightharpoonup> string"
  QueryParams :: "string \<rightharpoonup> string"
  ParseRequest :: "error + (string \<times> gvalue) list"

definition Param :: "Request \<Rightarrow> string \<Rightarrow> string" where
  "Param req k = (case RouteParams req k of None \<Rightarrow> [] | Some v \<Rightarrow> v)"

text \<open>\<open>httputil.Q(req, key, fallback)\<close>: the query parameter when it is non-empty, else the fallback.\<close>

definition Q :: "Request \<Rightarrow> string \<Rightarrow> string \<Rightarrow> string" where
  "Q req k fallback =
     (case QueryParams req k of
        None \<Rightarrow> fallback
      | Some v \<Rightarrow> if v \<noteq> [] then v else fallback)"

text \<open>
  Decimal integers, as \<open>strconv.ParseInt(s, 10, 64)\<close> reads them: an optional sign, at
  least one digit, and a value that fits 64 bits.
\<close>

definition digit :: "char \<Rightarrow> nat option" where
  "digit c =
     (let n = (of_char c :: nat) in if 48 \<le> n \<and> n \<le> 57 then Some (n - 48) else None)"

fun digits :: "nat \<Rightarrow> string \<Rightarrow> nat option" where
  "digits acc [] = Some acc"
| "digits acc (c # cs) =
     (case digit c of None \<Rightarrow> None | Some k \<Rightarrow> digits (10 * acc + k) cs)"

definition unsigned :: "string \<Rightarrow> nat option" where
  "unsigned s = (if s = [] then None else digits 0 s)"

definition ConvertToInteger :: "string \<Rightarrow> int option" where
  "ConvertToInteger s =
     (let r = (case s of
                 [] \<Rightarrow> None
               | c # cs \<Rightarrow>
                   if c = CHR ''-'' then map_option (\<lambda>n. - int n) (unsigned cs)
                   else if c = CHR ''+'' then map_option int (unsigned cs)
                   else map_option int (unsigned s))
      in case r of
           None \<Rightarrow> None
         | Some i \<Rightarrow> if - (2 ^ 63) \<le> i \<and> i < 2 ^ 63 then Some i else None)"

text \<open>\<open>httputil.QInt(req, key, fallback)\<close>: the parameter when it is an integer, else the fallback.\<close>

definition QInt :: "Request \<Rightarrow> string \<Rightarrow> int \<Rightarrow> int" where
  "QInt req k fallback =
     (let v = Q req k [] in
      if v \<noteq> []
      then (case ConvertToInteger v of Some i \<Rightarrow> i | None \<Rightarrow> fallback)
      else fallback)"

text \<open>\<open>strings.Split\<close> with a one-character separator: the empty string splits into \<open>[""]\<close>.\<close>

fun Split :: "string \<Rightarrow> char \<Rightarrow> string list" where
  "Split [] sep = [[]]"
| "Split (c # cs) sep =
     (if c = sep then [] # Split cs sep
      else (case Split cs sep of
              [] \<Rightarrow> [[c]]
            | x # xs \<Rightarrow> (c # x) # xs))"

text \<open>\<open>stringutil.SplitPair\<close>: the text before the first separator, and the text after it.\<close>

fun SplitPair :: "string \<Rightarrow> char \<Rightarrow> string \<times> string" where
  "SplitPair [] sep = ([], [])"
| "SplitPair (c # cs) sep =
     (if c = sep then ([], cs)
      else (let (a, b) = SplitPair cs sep in (c # a, b)))"

section \<open>The filter string grammar\<close>

text \<open>
  Modelled from the spec: \<open>filter.Parse\<close> is not under src/. The specification gives the
  string grammar as \<open>field/operator/value\<close> path segments, and the special literal \<open>all\<close>,
  which carries no condition and no limit of its own; a malformed string is a parse
  error. Of the operator tokens the specification gives one, \<open>eq\<close> for \<open>Is\<close>; what any
  other token stands for is the parameter \<open>operators\<close>. A value segment is one value.
\<close>

definition operatorOf :: "(string \<Rightarrow> Operator option) \<Rightarrow> string \<Rightarrow> Operator option" where
  "operatorOf operators token = (if token = ''eq'' then Some Is else operators token)"

fun parseCriteria :: "(string \<Rightarrow> Operator option) \<Rightarrow> string list \<Rightarrow> error + Criterion list" where
  "parseCriteria operators [] = Inr []"
| "parseCriteria operators (field # token # v # rest) =
     (case operatorOf operators token of
        None \<Rightarrow> Inl (ParseError token)
      | Some opr \<Rightarrow>
          (case parseCriteria operators rest of
             Inl err \<Rightarrow> Inl err
           | Inr criteria \<Rightarrow>
               Inr (\<lparr>CField = field, COperator = opr, CValues = [v]\<rparr> # criteria)))"
| "parseCriteria operators segments = Inl (ParseError (concat segments))"

definition filter_Parse :: "(string \<Rightarrow> Operator option) \<Rightarrow> string \<Rightarrow> error + Filter" where
  "filter_Parse operators spec =
     (if spec = ''all'' then Inr filter_New
      else (case parseCriteria operators (Split spec CHR ''/'') of
              Inl err \<Rightarrow> Inl err
            | Inr criteria \<Rightarrow> Inr (filter_New\<lparr>Criteria := criteria\<rparr>)))"

section \<open>filterFromRequest (server.go)\<close>

text \<open>
  The filter input is an \<open>interface{}\<close>: nil, a string, a filter, a map, or anything else.
  \<open>filter.Parse\<close>, \<open>filter.FromMap\<close> and \<open>maputil.Compact(maputil.Autotype(_))\<close> are
  not under src/ and are parameters of the model.
\<close>

datatype FilterIn =
    FNil
  | FString string
  | FFilter Filter
  | FMap "(string \<times> gvalue) list"
  | FOther string

record FilterEnv =
  Parse :: "string \<Rightarrow> error + Filter"
  FromMap :: "(string \<times> gvalue) list \<Rightarrow> error + Filter"
  CompactAutotype :: "(string \<times> gvalue) list \<Rightarrow> error + (string \<times> gvalue) list"

definition typeName :: "FilterIn \<Rightarrow> string" where
  "typeName filterIn =
     (case filterIn of
        FNil \<Rightarrow> ''<nil>''
      | FString s \<Rightarrow> ''string''
      | FFilter f \<Rightarrow> ''*filter.Filter''
      | FMap m \<Rightarrow> ''map[string]interface {}''
      | FOther t \<Rightarrow> t)"

definition filterFromRequest_input :: "FilterEnv \<Rightarrow> FilterIn \<Rightarrow> error + Filter" where
  "filterFromRequest_input env filterIn =
     (case filterIn of
        FString s \<Rightarrow> (case Parse env s of Inr flt \<Rightarrow> Inr flt | Inl err \<Rightarrow> Inl err)
      | FFilter f \<Rightarrow> Inr f
      | FMap m \<Rightarrow>
          (case CompactAutotype env m of
             Inr fMap \<Rightarrow>
               (case FromMap env fMap of
                  Inr flt \<Rightarrow> Inr flt
                | Inl err \<Rightarrow> Inl (Errorf ''filter parse error: %v'' [ArgError err]))
           | Inl err \<Rightarrow> Inl (Errorf ''map error: %v'' [ArgError err]))
      | _ \<Rightarrow> Inl (Errorf ''Unsupported filter input type %T'' [ArgTypeOf (typeName filterIn)]))"

definition filterFromRequest :: "FilterEnv \<Rightarrow> Request \<Rightarrow> FilterIn \<Rightarrow> int \<Rightarrow> error + Filter" where
  "filterFromRequest env req filterIn defaultLimit =
     (let limit = QInt req ''limit'' defaultLimit;
          offset = QInt req ''offset'' 0
      in case filterFromRequest_input env filterIn of
           Inl err \<Rightarrow> Inl err
         | Inr f0 \<Rightarrow>
             (let f1 = f0\<lparr>Limit := limit\<rparr>;
                  f2 = f1\<lparr>Offset := offset\<rparr>;
                  f3 = (if Q req ''sort'' [] \<noteq> []
                        then f2\<lparr>Sort := Split (Q req ''sort'' []) CHR '',''\<rparr> else f2);
                  f4 = (if Q req ''fields'' [] \<noteq> []
                        then f3\<lparr>FFields := Split (Q req ''fields'' []) CHR '',''\<rparr> else f3)
              in Inr f4))"

definition DefaultResultLimit :: int where
  "DefaultResultLimit = 25"

section \<open>injectRequestParamsIntoCollection (server.go)\<close>

text \<open>
  The three conditional assignments of the function, on the copied struct value.
\<close>

definition withRequestParams :: "Request \<Rightarrow> Collection \<Rightarrow> Collection" where
  "withRequestParams req c0 =
     (let c1 = (if Q req ''index'' [] \<noteq> [] then c0\<lparr>IndexName := Q req ''index'' []\<rparr> else c0);
          c2 = (if Q req ''keys'' [] \<noteq> []
                then c1\<lparr>IndexCompoundFields := Split (Q req ''keys'' []) CHR '',''\<rparr> else c1);
          c3 = (if Q req ''joiner'' [] \<noteq> []
                then c2\<lparr>IndexCompoundFieldJoiner := Q req ''joiner'' []\<rparr> else c2)
      in c3)"

text \<open>
  Collections live in a store, addressed by index; a \<open>*dal.Collection\<close> is an address.
  \<open>c := *collection; collection = &c\<close> reads the struct at the address (a nil or dangling
  pointer panics), allocates a new cell holding the copy, and from then on the function
  writes only through the new address, which it returns.
\<close>

type_synonym store = "Collection list"

definition injectRequestParamsIntoCollection ::
  "Request \<Rightarrow> nat \<Rightarrow> store \<Rightarrow> error + (nat \<times> store)" where
  "injectRequestParamsIntoCollection req collection h =
     (if collection < length h
      then (let c = h ! collection;
                collection' = length h;
                h' = h @ [c];
                h'' = h'[collection' := withRequestParams req (h' ! collection')]
            in Inr (collection', h''))
      else Inl (Panic ''nil pointer dereference''))"

section \<open>Backends, and the trace of what a call does\<close>

text \<open>
  \<open>backends.NewMetaIndex\<close> and the indexers are not under src/: an indexer is either what
  \<open>WithSearch\<close> returned for a collection, or the meta-index built from the two sides of a
  join (the right-hand collection is the pointer \<open>GetCollection\<close> returned, nil or not).
  \<open>WithSearch\<close> tells whether the backend returned an indexer (true) or nil.
\<close>

datatype Indexer =
    Search Collection
  | MetaIndex Collection string "Collection option" string

text \<open>What a handler passes to \<open>httputil.RespondJSON\<close>.\<close>

datatype payload =
    PNil
  | PError error
  | PErrors "error list"
  | PCollection Collection
  | PRecordSet "Record list"

text \<open>
  Everything the modelled code does to the outside is appended to a trace, in the order
  in which it happens: the calls to the backend, the call of \<open>Diff\<close>, and the calls of
  \<open>RespondJSON\<close> with their payload and their status argument (\<open>None\<close> when the call
  passes no status).
\<close>

datatype event =
    EvGetCollection string
  | EvCreateCollection Collection
  | EvDiff Collection "Collection option"
  | EvExists string gvalue
  | EvInsert string "Record list"
  | EvUpdate string "Record list"
  | EvWithSearch "Collection option"
  | EvQuery Indexer Collection Filter
  | EvRespondJSON payload "nat option"
  | EvPanic string

text \<open>
  \<open>backends.Backend\<close> is an interface; its implementation is a parameter. Every method
  may read and change the backend's own state \<open>'s\<close>. \<open>GetCollection\<close> returns a pointer
  and an error, either of which may be nil. \<open>TypeName\<close> is what \<open>%T\<close> prints.
\<close>

record 's Backend =
  TypeName :: string
  GetCollection :: "string \<Rightarrow> 's \<Rightarrow> (Collection option \<times> error option) \<times> 's"
  CreateCollection :: "Collection \<Rightarrow> 's \<Rightarrow> error option \<times> 's"
  Exists :: "string \<Rightarrow> gvalue \<Rightarrow> 's \<Rightarrow> bool \<times> 's"
  Insert :: "string \<Rightarrow> Record list \<Rightarrow> 's \<Rightarrow> error option \<times> 's"
  Update :: "string \<Rightarrow> Record list \<Rightarrow> 's \<Rightarrow> error option \<times> 's"
  WithSearch :: "Collection option \<Rightarrow> 's \<Rightarrow> bool \<times> 's"
  Query :: "Indexer \<Rightarrow> Collection \<Rightarrow> Filter \<Rightarrow> 's \<Rightarrow> (error + Record list) \<times> 's"

record 's World =
  backendState :: 's
  trace :: "event list"

definition call :: "event \<Rightarrow> ('s \<Rightarrow> 'r \<times> 's) \<Rightarrow> 's World \<Rightarrow> 'r \<times> 's World" where
  "call ev m w =
     (let (r, s') = m (backendState w)
      in (r, \<lparr>backendState = s', trace = trace w @ [ev]\<rparr>))"

definition emit :: "event \<Rightarrow> 's World \<Rightarrow> 's World" where
  "emit ev w = w\<lparr>trace := trace w @ [ev]\<rparr>"

definition RespondJSON :: "payload \<Rightarrow> nat option \<Rightarrow> 's World \<Rightarrow> 's World" where
  "RespondJSON data status w = emit (EvRespondJSON data status) w"

definition StatusCreated :: nat where "StatusCreated = 201"
definition StatusBadRequest :: nat where "StatusBadRequest = 400"
definition StatusNotFound :: nat where "StatusNotFound = 404"
definition StatusConflict :: nat where "StatusConflict = 409"

text \<open>
  The status of the response that a trace leaves on the \<open>http.ResponseWriter\<close>. A call of
  \<open>RespondJSON\<close> with a status passes it to \<open>WriteHeader\<close> and then writes its body. The
  writer sends the status line at the first \<open>WriteHeader\<close> or the first write, and a
  later \<open>WriteHeader\<close> changes nothing. So the status of the response is decided by the
  first \<open>RespondJSON\<close> of the trace: \<open>None\<close> when there is none, \<open>Some None\<close> when that
  call passes no status and leaves the choice to \<open>RespondJSON\<close>.
\<close>

fun responseStatus :: "event list \<Rightarrow> nat option option" where
  "responseStatus [] = None"
| "responseStatus (EvRespondJSON data status # evs) = Some status"
| "responseStatus (ev # evs) = responseStatus evs"

section \<open>Model (mapper/model.go)\<close>

record 's Model =
  db :: "'s Backend"
  collection :: Collection

text \<open>
  \<open>Collection.Diff\<close> is not under src/; it is the parameter \<open>Diff\<close>, which returns nil
  (\<open>None\<close>) or a slice of deltas, and \<open>fmtv\<close> is what \<open>%v\<close> prints for a delta. Lines
  73-83 of \<open>Migrate\<close>:
\<close>

definition Migrate_diff ::
  "(Collection \<Rightarrow> Collection option \<Rightarrow> 'd list option) \<Rightarrow> ('d \<Rightarrow> string) \<Rightarrow>
   's Model \<Rightarrow> Collection option \<Rightarrow> 's World \<Rightarrow> error option \<times> 's World" where
  "Migrate_diff Diff fmtv self actualCollection w =
     (let w1 = emit (EvDiff (collection self) actualCollection) w
      in case Diff (collection self) actualCollection of
           Some deltas \<Rightarrow>
             (let msg = ''Actual schema for collection '' @ [CHR 0x27] @ Name (collection self)
                          @ [CHR 0x27] @ '' differs from desired schema:'' @ [CHR 0x0A];
                  msg' = foldl (\<lambda>m d. m @ ''  '' @ fmtv d @ [CHR 0x0A]) msg deltas
              in (Some (Errorf msg' []), w1))
         | None \<Rightarrow> (None, w1))"

definition Migrate ::
  "(Collection \<Rightarrow> Collection option \<Rightarrow> 'd list option) \<Rightarrow> ('d \<Rightarrow> string) \<Rightarrow>
   's Model \<Rightarrow> 's World \<Rightarrow> error option \<times> 's World" where
  "Migrate Diff fmtv self w =
     (let name = Name (collection self);
          ((c, err), w1) = call (EvGetCollection name) (GetCollection (db self) name) w
      in if IsCollectionNotFoundErr err
         then (let (err1, w2) = call (EvCreateCollection (collection self))
                                  (CreateCollection (db self) (collection self)) w1
               in if err1 = None
                  then (let ((c2, err2), w3) =
                              call (EvGetCollection name) (GetCollection (db self) name) w2
                        in if err2 = None
                           then Migrate_diff Diff fmtv self c2 w3
                           else (err2, w3))
                  else (err1, w2))
         else Migrate_diff Diff fmtv self c w1)"

definition Create :: "'s Model \<Rightarrow> input \<Rightarrow> 's World \<Rightarrow> error option \<times> 's World" where
  "Create self from w =
     (case MakeRecord (collection self) from of
        Inr record \<Rightarrow>
          call (EvInsert (Name (collection self)) [record])
            (Insert (db self) (Name (collection self)) [record]) w
      | Inl err \<Rightarrow> (Some err, w))"

definition Model_Exists :: "'s Model \<Rightarrow> gvalue \<Rightarrow> 's World \<Rightarrow> bool \<times> 's World" where
  "Model_Exists self ident w =
     call (EvExists (Name (collection self)) ident)
       (Exists (db self) (Name (collection self)) ident) w"

definition Model_Update :: "'s Model \<Rightarrow> input \<Rightarrow> 's World \<Rightarrow> error option \<times> 's World" where
  "Model_Update self from w =
     (case MakeRecord (collection self) from of
        Inr record \<Rightarrow>
          call (EvUpdate (Name (collection self)) [record])
            (Update (db self) (Name (collection self)) [record]) w
      | Inl err \<Rightarrow> (Some err, w))"

text \<open>\<open>id == nil || !self.Exists(id)\<close>: the right operand is evaluated only when the left is false.\<close>

definition CreateOrUpdate ::
  "'s Model \<Rightarrow> gvalue \<Rightarrow> input \<Rightarrow> 's World \<Rightarrow> error option \<times> 's World" where
  "CreateOrUpdate self ident from w =
     (if ident = VNil
      then Create self from w
      else (let (found, w1) = Model_Exists self ident w
            in if \<not> found then Create self from w1 else Model_Update self from w1))"

section \<open>The query handler (server.go, lines 163-247)\<close>

text \<open>
  Lines 183-246: the filter input by method, \<open>filterFromRequest\<close>, the collection lookup,
  the indexer (a meta-index when a right-hand collection is named), and the query.
\<close>

definition queryHandler_query ::
  "'s Backend \<Rightarrow> Indexer \<Rightarrow> Collection \<Rightarrow> Filter \<Rightarrow> 's World \<Rightarrow> 's World" where
  "queryHandler_query backend queryInterface coll f w =
     (let (r, w1) = call (EvQuery queryInterface coll f)
                      (Query backend queryInterface coll f) w
      in case r of
           Inr recordset \<Rightarrow> RespondJSON (PRecordSet recordset) None w1
         | Inl err \<Rightarrow> RespondJSON (PError err) None w1)"

definition queryHandler_search ::
  "'s Backend \<Rightarrow> Collection \<Rightarrow> string \<Rightarrow> string \<Rightarrow> string \<Rightarrow> Filter \<Rightarrow>
   's World \<Rightarrow> 's World" where
  "queryHandler_search backend coll leftField rightName rightField f w =
     (let unsupported =
            PError (Errorf ''Backend %T does not support complex queries.''
                      [ArgTypeOf (TypeName backend)]);
          (search, w1) = call (EvWithSearch (Some coll)) (WithSearch backend (Some coll)) w
      in if search
         then (if rightName = []
               then queryHandler_query backend (Search coll) coll f w1
               else (let ((rc, rerr), w2) =
                           call (EvGetCollection rightName) (GetCollection backend rightName) w1
                     in if rerr = None
                        then (let (rightSearch, w3) =
                                    call (EvWithSearch rc) (WithSearch backend rc) w2
                              in if rightSearch
                                 then queryHandler_query backend
                                        (MetaIndex coll leftField rc rightField) coll f w3
                                 else RespondJSON unsupported (Some StatusBadRequest) w3)
                        else RespondJSON
                               (PError (Errorf ''right-side: %v'' [ArgError (the rerr)])) None w2))
         else RespondJSON unsupported (Some StatusBadRequest) w1)"

definition queryHandler_input :: "Request \<Rightarrow> error + FilterIn" where
  "queryHandler_input req =
     (if Method req = ''GET''
      then Inr (if Param req ''_name'' \<noteq> [] then FString (Param req ''_name'') else FNil)
      else if Method req = ''POST''
      then (case ParseRequest req of Inr fMap \<Rightarrow> Inr (FMap fMap) | Inl err \<Rightarrow> Inl err)
      else Inr FNil)"

definition queryHandler_run ::
  "FilterEnv \<Rightarrow> 's Backend \<Rightarrow> Request \<Rightarrow> string \<Rightarrow> string \<Rightarrow> string \<Rightarrow> string \<Rightarrow>
   's World \<Rightarrow> 's World" where
  "queryHandler_run env backend req name leftField rightName rightField w =
     (case queryHandler_input req of
        Inl err \<Rightarrow> RespondJSON (PError err) (Some StatusBadRequest) w
      | Inr query \<Rightarrow>
          (case filterFromRequest env req query DefaultResultLimit of
             Inl err \<Rightarrow> RespondJSON (PError err) (Some StatusBadRequest) w
           | Inr f \<Rightarrow>
               (let ((c, err), w1) =
                      call (EvGetCollection name) (GetCollection backend name) w
                in if err = None
                   then (case c of
                           None \<Rightarrow> emit (EvPanic ''nil pointer dereference'') w1
                         | Some collection0 \<Rightarrow>
                             queryHandler_search backend (withRequestParams req collection0)
                               leftField rightName rightField f w1)
                   else if IsCollectionNotFoundErr err
                   then RespondJSON (PError (the err)) (Some StatusNotFound) w1
                   else RespondJSON (PError (the err)) None w1)))"

text \<open>Lines 170-181: the join specification is split at \<open>:\<close>, and its length decides.\<close>

definition queryHandler :: "FilterEnv \<Rightarrow> 's Backend \<Rightarrow> Request \<Rightarrow> 's World \<Rightarrow> 's World" where
  "queryHandler env backend req w =
     (let collections = Split (Param req ''collection'') CHR '':''
      in case collections of
           [c0] \<Rightarrow> queryHandler_run env backend req c0 [] [] [] w
         | [c0, c1] \<Rightarrow>
             (let (name, leftField) = SplitPair c0 CHR ''.'';
                  (rightName, rightField) = SplitPair c1 CHR ''.''
              in queryHandler_run env backend req name leftField rightName rightField w)
         | _ \<Rightarrow>
             RespondJSON
               (PError (Errorf ''Only two (2) joined collections are supported'' []))
               (Some StatusBadRequest) w)"

section \<open>POST /api/schema (server.go, lines 503-547)\<close>

text \<open>
  The request body by the branch of lines 507-523 it takes: \<open>ReadAll\<close> fails; the body
  decodes as one collection; the first decoding reports an array and the second one
  succeeds, or fails; the first decoding fails otherwise.
\<close>

datatype SchemaBody =
    ReadAllError error
  | JsonObject Collection
  | JsonArray "Collection list"
  | JsonArrayError error
  | JsonError error

text \<open>
  The loop of lines 527-542 over the collections still to create, with \<open>n\<close> the length
  of the whole slice and \<open>errors\<close> the errors collected so far. \<open>None\<close>: the handler has
  returned from inside the loop.
\<close>

fun postSchema_loop ::
  "'s Backend \<Rightarrow> nat \<Rightarrow> Collection list \<Rightarrow> error list \<Rightarrow> 's World \<Rightarrow>
   error list option \<times> 's World" where
  "postSchema_loop backend n [] errors w = (Some errors, w)"
| "postSchema_loop backend n (c # rest) errors w =
     (let (err, w1) = call (EvCreateCollection c) (CreateCollection backend c) w
      in case err of
           None \<Rightarrow>
             postSchema_loop backend n rest errors
               (RespondJSON (PCollection c) (Some StatusCreated) w1)
         | Some e \<Rightarrow>
             if n = 1
             then (None, if IsExistError e
                         then RespondJSON (PError e) (Some StatusConflict) w1
                         else RespondJSON (PError e) None w1)
             else postSchema_loop backend n rest (errors @ [e]) w1)"

definition postSchema_create :: "'s Backend \<Rightarrow> Collection list \<Rightarrow> 's World \<Rightarrow> 's World" where
  "postSchema_create backend collections w =
     (case postSchema_loop backend (length collections) collections [] w of
        (None, w1) \<Rightarrow> w1
      | (Some errors, w1) \<Rightarrow>
          if length errors > 0
          then RespondJSON (PErrors errors) (Some StatusBadRequest) w1
          else w1)"

definition postSchema :: "'s Backend \<Rightarrow> SchemaBody \<Rightarrow> 's World \<Rightarrow> 's World" where
  "postSchema backend body w =
     (case body of
        ReadAllError err \<Rightarrow> RespondJSON (PError err) (Some StatusBadRequest) w
      | JsonObject c \<Rightarrow> postSchema_create backend [c] w
      | JsonArray cs \<Rightarrow> postSchema_create backend cs w
      | JsonArrayError err \<Rightarrow> RespondJSON (PError err) (Some StatusBadRequest) w
      | JsonError err \<Rightarrow>
          postSchema_create backend [] (RespondJSON (PError err) (Some StatusBadRequest) w))"

section \<open>The SQL aggregator (the backends file in server.go, lines 677-816)\<close>

datatype Aggregation = filter_Count | filter_Sum | filter_Minimum | filter_Maximum | filter_Average

record Aggregate =
  Aggregation :: Aggregation
  AggField :: string

text \<open>
  Modelled from the spec: \<open>generators.Sql\<close> and \<open>makeQueryGen\<close> are not under src/. The
  generator is a per-call builder, made for a collection and fed group-by fields and
  aggregates in order.
\<close>

record Sql =
  genCollection :: Collection
  genGroupBy :: "string list"
  genAggregateBy :: "Aggregate list"

definition makeQueryGen :: "Collection \<Rightarrow> Sql" where
  "makeQueryGen c = \<lparr>genCollection = c, genGroupBy = [], genAggregateBy = []\<rparr>"

definition GroupByField :: "Sql \<Rightarrow> string \<Rightarrow> Sql" where
  "GroupByField g f = g\<lparr>genGroupBy := genGroupBy g @ [f]\<rparr>"

definition AggregateByField :: "Sql \<Rightarrow> Aggregate \<Rightarrow> Sql" where
  "AggregateByField g a = g\<lparr>genAggregateBy := genAggregateBy g @ [a]\<rparr>"

text \<open>
  A cell of a result row as \<open>rows.Scan\<close> into a \<open>sql.NullFloat64\<close> sees it: SQL NULL, a
  number, or something \<open>Scan\<close> cannot convert (with the error it reports). A float64 is
  carried as a real; the model does no arithmetic on it.
\<close>

datatype cell = SqlNull | SqlFloat real | SqlBad error

record NullFloat64 =
  Float64 :: real
  Valid :: bool

text \<open>\<open>rows.Scan(&rv)\<close> on the current row: one destination needs exactly one column.\<close>

definition Scan :: "cell list \<Rightarrow> error + NullFloat64" where
  "Scan row =
     (case row of
        [SqlNull] \<Rightarrow> Inr \<lparr>Float64 = 0, Valid = False\<rparr>
      | [SqlFloat x] \<Rightarrow> Inr \<lparr>Float64 = x, Valid = True\<rparr>
      | [SqlBad err] \<Rightarrow> Inl err
      | _ \<Rightarrow> Inl (OtherError ''sql: expected 1 destination arguments in Scan''))"

text \<open>
  \<open>SqlBackend\<close>: what the methods below call and src/ does not hold. \<open>Initialize\<close> and
  \<open>filter.Render\<close> work on the generator (\<open>Render\<close> yields the statement and the values
  to bind), \<open>dbQuery\<close> is \<open>self.db.Query\<close>, and \<open>uint64_beyond\<close> is what the platform makes
  of \<open>uint64(v)\<close> when \<open>v\<close> is outside the range of uint64.
\<close>

record SqlBackend =
  Initialize :: "Sql \<Rightarrow> string \<Rightarrow> error option"
  Render :: "Sql \<Rightarrow> string \<Rightarrow> Filter \<Rightarrow> error + (string \<times> gvalue list)"
  dbQuery :: "string \<Rightarrow> gvalue list \<Rightarrow> error + cell list list"
  uint64_beyond :: "real \<Rightarrow> 64 word"

definition extractSingleFloat64 ::
  "cell list list \<Rightarrow> Sql \<Rightarrow> Collection \<Rightarrow> Filter \<Rightarrow> real option \<times> error option" where
  "extractSingleFloat64 rows g c f =
     (case rows of
        row # _ \<Rightarrow>
          (case Scan row of
             Inr rv \<Rightarrow> (Some (Float64 rv), None)
           | Inl err \<Rightarrow> (Some 0, Some err))
      | [] \<Rightarrow> (Some 0, None))"

text \<open>\<open>aggregate\<close> returns an \<open>interface{}\<close> (nil on its own error paths) and an error.\<close>

definition aggregate ::
  "SqlBackend \<Rightarrow> Collection \<Rightarrow> string list \<Rightarrow> Aggregate list \<Rightarrow> Filter list \<Rightarrow>
   (cell list list \<Rightarrow> Sql \<Rightarrow> Collection \<Rightarrow> Filter \<Rightarrow> 'a option \<times> error option) \<Rightarrow>
   'a option \<times> error option" where
  "aggregate self c groupBy aggregates f resultFn =
     (let queryGen = makeQueryGen c;
          flt = (case f of [] \<Rightarrow> filter_New | f0 # _ \<Rightarrow> f0);
          queryGen1 = foldl GroupByField queryGen groupBy;
          queryGen2 = foldl AggregateByField queryGen1 aggregates
      in case Initialize self queryGen2 (Name c) of
           None \<Rightarrow>
             (case Render self queryGen2 (Name c) flt of
                Inr (stmt, values) \<Rightarrow>
                  (case dbQuery self stmt values of
                     Inr rows \<Rightarrow> resultFn rows queryGen2 c flt
                   | Inl err \<Rightarrow> (None, Some err))
              | Inl err \<Rightarrow> (None, Some err))
         | Some err \<Rightarrow> (None, Some err))"

text \<open>
  \<open>result.(float64)\<close> is taken only when the error is nil; \<open>extractSingleFloat64\<close> always
  returns a float64 then, and a nil result would panic.
\<close>

definition aggregateFloat ::
  "SqlBackend \<Rightarrow> Collection \<Rightarrow> Aggregation \<Rightarrow> string \<Rightarrow> Filter list \<Rightarrow>
   real \<times> error option" where
  "aggregateFloat self c aggregation field f =
     (case aggregate self c [] [\<lparr>Aggregation = aggregation, AggField = field\<rparr>] f
             extractSingleFloat64 of
        (Some result, None) \<Rightarrow> (result, None)
      | (None, None) \<Rightarrow> (0, Some (Panic ''interface conversion: interface is nil''))
      | (_, Some err) \<Rightarrow> (0, Some err))"

text \<open>
  \<open>uint64(v)\<close> of a float64: the fraction is dropped (towards zero) when the result fits;
  otherwise Go leaves the value to the implementation.
\<close>

definition uint64 :: "SqlBackend \<Rightarrow> real \<Rightarrow> 64 word" where
  "uint64 self v =
     (if - 1 < v \<and> v < 2 ^ 64
      then word_of_int (if v < 0 then \<lceil>v\<rceil> else \<lfloor>v\<rfloor>)
      else uint64_beyond self v)"

definition IsZero :: "string \<Rightarrow> bool" where
  "IsZero s = (s = [])"

definition Sum :: "SqlBackend \<Rightarrow> Collection \<Rightarrow> string \<Rightarrow> Filter list \<Rightarrow> real \<times> error option" where
  "Sum self c field f = aggregateFloat self c filter_Sum field f"

definition Count :: "SqlBackend \<Rightarrow> Collection \<Rightarrow> Filter list \<Rightarrow> 64 word \<times> error option" where
  "Count self c f =
     (let whatToCount = IdentityField c;
          whatToCount' = (if IsZero whatToCount then ''1'' else whatToCount);
          (v, err) = aggregateFloat self c filter_Count whatToCount' f
      in (uint64 self v, err))"

definition Minimum :: "SqlBackend \<Rightarrow> Collection \<Rightarrow> string \<Rightarrow> Filter list \<Rightarrow> real \<times> error option" where
  "Minimum self c field f = aggregateFloat self c filter_Minimum field f"

definition Maximum :: "SqlBackend \<Rightarrow> Collection \<Rightarrow> string \<Rightarrow> Filter list \<Rightarrow> real \<times> error option" where
  "Maximum self c field f = aggregateFloat self c filter_Maximum field f"

definition Average :: "SqlBackend \<Rightarrow> Collection \<Rightarrow> string \<Rightarrow> Filter list \<Rightarrow> real \<times> error option" where
  "Average self c field f = aggregateFloat self c filter_Average field f"

section \<open>Descriptions used in the statements\<close>

text \<open>
  The batch of POST /api/schema as the claim words it: every collection is attempted in
  turn, each attempt starting from the backend state the previous one left.
\<close>

fun createAll :: "'s Backend \<Rightarrow> Collection list \<Rightarrow> 's \<Rightarrow> error option list \<times> 's" where
  "createAll backend [] s = ([], s)"
| "createAll backend (c # cs) s =
     (let (r, s1) = CreateCollection backend c s;
          (rs, s2) = createAll backend cs s1
      in (r # rs, s2))"

text \<open>The failures among the outcomes, in order.\<close>

definition failures :: "error option list \<Rightarrow> error list" where
  "failures rs = List.map_filter id rs"

text \<open>What a batch leaves in the trace: each attempt, followed by its 201 response if it succeeded.\<close>

fun batch_events :: "Collection list \<Rightarrow> error option list \<Rightarrow> event list" where
  "batch_events (c # cs) (r # rs) =
     EvCreateCollection c
       # (case r of
            None \<Rightarrow> [EvRespondJSON (PCollection c) (Some StatusCreated)]
          | Some e \<Rightarrow> [])
       @ batch_events cs rs"
| "batch_events _ _ = []"

text \<open>
  The generator a scalar aggregate hands to \<open>Initialize\<close> and \<open>filter.Render\<close>, and the
  filter it renders.
\<close>

definition scalarGen :: "Collection \<Rightarrow> Aggregation \<Rightarrow> string \<Rightarrow> Sql" where
  "scalarGen c aggregation field =
     \<lparr>genCollection = c, genGroupBy = [],
      genAggregateBy = [\<lparr>Aggregation = aggregation, AggField = field\<rparr>]\<rparr>"

definition firstFilter :: "Filter list \<Rightarrow> Filter" where
  "firstFilter f = (case f of [] \<Rightarrow> filter_New | f0 # _ \<Rightarrow> f0)"

text \<open>
  A result set whose first row, if there is one, is a single cell holding NULL or a
  number; and the number it stands for.
\<close>

definition oneNumericCell :: "cell list list \<Rightarrow> bool" where
  "oneNumericCell rows =
     (case rows of
        [] \<Rightarrow> True
      | [SqlNull] # _ \<Rightarrow> True
      | [SqlFloat x] # _ \<Rightarrow> True
      | _ \<Rightarrow> False)"

definition firstCell :: "cell list list \<Rightarrow> real" where
  "firstCell rows =
     (case rows of
        [SqlFloat x] # _ \<Rightarrow> x
      | _ \<Rightarrow> 0)"

section \<open>Example values\<close>

definition users_collection :: Collection where
  "users_collection =
     \<lparr>Name = ''users'', Fields = [\<lparr>FieldName = ''name'', FieldType = ''str'', Required = False\<rparr>],
      IdentityField = ''id'', IdentityFieldType = ''int'', IndexName = [],
      IndexCompoundFields = [], IndexCompoundFieldJoiner = [], Options = None\<rparr>"

definition orders_collection :: Collection where
  "orders_collection =
     \<lparr>Name = ''orders'', Fields = [\<lparr>FieldName = ''total'', FieldType = ''float'', Required = True\<rparr>],
      IdentityField = [], IdentityFieldType = ''int'', IndexName = [],
      IndexCompoundFields = [], IndexCompoundFieldJoiner = [], Options = None\<rparr>"

definition keys_request :: Request where
  "keys_request =
     \<lparr>Method = ''GET'', RouteParams = [''collection'' \<mapsto> ''users''],
      QueryParams = [''index'' \<mapsto> ''users_v2'', ''keys'' \<mapsto> ''a,b''],
      ParseRequest = Inr []\<rparr>"

text \<open>A request for \<open>/api/collections/a:b:c/where/all\<close>.\<close>

definition three_way_request :: Request where
  "three_way_request =
     \<lparr>Method = ''GET'', RouteParams = [''collection'' \<mapsto> ''a:b:c'', ''_name'' \<mapsto> ''all''],
      QueryParams = Map.empty, ParseRequest = Inr []\<rparr>"

text \<open>
  A backend whose state is the list of its collections; the record with identity 1
  exists in every collection.
\<close>

definition memory_backend :: "Collection list Backend" where
  "memory_backend =
     \<lparr>TypeName = ''*backends.Memory'',
      GetCollection = (\<lambda>name s.
        (case find (\<lambda>c. Name c = name) s of
           None \<Rightarrow> (None, Some CollectionNotFound)
         | Some c \<Rightarrow> (Some c, None), s)),
      CreateCollection = (\<lambda>c s.
        if Name c \<in> set (map Name s) then (Some ExistsError, s) else (None, s @ [c])),
      Exists = (\<lambda>name ident s. (ident = VInt 1, s)),
      Insert = (\<lambda>name records s. (None, s)),
      Update = (\<lambda>name records s. (None, s)),
      WithSearch = (\<lambda>c s. (True, s)),
      Query = (\<lambda>i c f s. (Inr [], s))\<rparr>"

text \<open>A backend that cannot be reached: every lookup fails with the same error.\<close>

definition unreachable_backend :: "unit Backend" where
  "unreachable_backend =
     \<lparr>TypeName = ''*backends.Remote'',
      GetCollection = (\<lambda>name s. ((None, Some (OtherError ''connection refused'')), s)),
      CreateCollection = (\<lambda>c s. (Some (OtherError ''connection refused''), s)),
      Exists = (\<lambda>name ident s. (False, s)),
      Insert = (\<lambda>name records s. (Some (OtherError ''connection refused''), s)),
      Update = (\<lambda>name records s. (Some (OtherError ''connection refused''), s)),
      WithSearch = (\<lambda>c s. (False, s)),
      Query = (\<lambda>i c f s. (Inl (OtherError ''connection refused''), s))\<rparr>"

text \<open>An SQL backend whose every statement yields the given rows.\<close>

definition rows_backend :: "cell list list \<Rightarrow> SqlBackend" where
  "rows_backend rows =
     \<lparr>Initialize = (\<lambda>g name. None),
      Render = (\<lambda>g name f. Inr (''SELECT'', [])),
      dbQuery = (\<lambda>stmt values. Inr rows),
      uint64_beyond = (\<lambda>v. 0)\<rparr>"

text \<open>A struct \<open>{Name string `pivot:"name"`}\<close> holding the name ada.\<close>

definition ada_struct :: input where
  "ada_struct =
     PtrToStruct
       \<lparr>getFieldsForStruct =
          Inr [(''name'', \<lparr>FieldValue = VStr ''ada'', Identity = False, OmitEmpty = False\<rparr>)],
        FieldOk = [''Name'' \<mapsto> VStr ''ada'']\<rparr>"

text \<open>
  A stand-in for package filter (not under src/) that knows just the two query texts the
  specification mentions, with the results the specification gives for them.
\<close>

definition two_query_filters :: FilterEnv where
  "two_query_filters =
     \<lparr>Parse = (\<lambda>s.
        if s = ''all'' then Inr filter_New
        else if s = ''status/eq/active''
        then Inr (filter_New\<lparr>Criteria :=
                    [\<lparr>CField = ''status'', COperator = Is, CValues = [''active'']\<rparr>]\<rparr>)
        else Inl (OtherError ''cannot parse'')),
      FromMap = (\<lambda>m. Inr filter_New),
      CompactAutotype = (\<lambda>m. Inr m)\<rparr>"

text \<open>
  The filter functions with the parser of the grammar above, no operator token beyond
  \<open>eq\<close>.
\<close>

definition path_filters :: FilterEnv where
  "path_filters =
     \<lparr>Parse = filter_Parse (\<lambda>token. None),
      FromMap = (\<lambda>m. Inr filter_New),
      CompactAutotype = (\<lambda>m. Inr m)\<rparr>"

text \<open>
  A struct \<open>{Key int `pivot:"key,identity,omitempty"`; ID int}\<close> with \<open>Key = 0\<close> and
  \<open>ID = 7\<close>: an explicitly annotated identity field next to a field named \<open>ID\<close>.
\<close>

definition zero_key_struct :: StructValue where
  "zero_key_struct =
     \<lparr>getFieldsForStruct =
        Inr [(''key'', \<lparr>FieldValue = VInt 0, Identity = True, OmitEmpty = True\<rparr>)],
      FieldOk = [''Key'' \<mapsto> VInt 0, ''ID'' \<mapsto> VInt 7]\<rparr>"

text \<open>
  A struct \<open>{Key int `pivot:"id,identity,omitempty"`}\<close> with \<open>Key = 0\<close>: the annotated
  field carries the tag that is also the collection's identity field.
\<close>

definition zero_id_struct :: StructValue where
  "zero_id_struct =
     \<lparr>getFieldsForStruct =
        Inr [(''id'', \<lparr>FieldValue = VInt 0, Identity = True, OmitEmpty = True\<rparr>)],
      FieldOk = [''Key'' \<mapsto> VInt 0]\<rparr>"

text \<open>The first struct with \<open>Key = 3\<close>.\<close>

definition key_struct :: StructValue where
  "key_struct =
     \<lparr>getFieldsForStruct =
        Inr [(''key'', \<lparr>FieldValue = VInt 3, Identity = True, OmitEmpty = True\<rparr>)],
      FieldOk = [''Key'' \<mapsto> VInt 3, ''ID'' \<mapsto> VInt 7]\<rparr>"

text \<open>
  A collection that declares the field \<open>ident\<close>, and a struct \<open>{ID int `pivot:"ident"`}\<close>
  with \<open>ID = 5\<close>.
\<close>

definition accounts_collection :: Collection where
  "accounts_collection =
     \<lparr>Name = ''accounts'',
      Fields = [\<lparr>FieldName = ''ident'', FieldType = ''int'', Required = True\<rparr>],
      IdentityField = ''id'', IdentityFieldType = ''int'', IndexName = [],
      IndexCompoundFields = [], IndexCompoundFieldJoiner = [], Options = None\<rparr>"

definition ident_struct :: StructValue where
  "ident_struct =
     \<lparr>getFieldsForStruct =
        Inr [(''ident'', \<lparr>FieldValue = VInt 5, Identity = False, OmitEmpty = False\<rparr>)],
      FieldOk = [''ID'' \<mapsto> VInt 5]\<rparr>"

text \<open>A request for \<open>/api/collections/users/where/all\<close>, with no query parameters.\<close>

definition all_request :: Request where
  "all_request =
     \<lparr>Method = ''GET'', RouteParams = [''collection'' \<mapsto> ''users'', ''_name'' \<mapsto> ''all''],
      QueryParams = Map.empty, ParseRequest = Inr []\<rparr>"

section \<open>Shared lemmas\<close>

lemma call_simp:
  "call ev m w =
     (fst (m (backendState w)), \<lparr>backendState = snd (m (backendState w)), trace = trace w @ [ev]\<rparr>)"
  by (simp add: call_def split: prod.splits)

section \<open>Model.Migrate\<close>

lemma Migrate_other_error:
  assumes "GetCollection (db self) (Name (collection self)) (backendState w) = ((c, err), s')"
    and "err \<noteq> Some CollectionNotFound"
  shows "Migrate Diff fmtv self w =
           Migrate_diff Diff fmtv self c
             \<lparr>backendState = s', trace = trace w @ [EvGetCollection (Name (collection self))]\<rparr>"
  using assms by (simp add: Migrate_def call_simp IsCollectionNotFoundErr_def Let_def)

lemma Migrate_diff_result:
  "Migrate_diff Diff fmtv self c w =
     (case Diff (collection self) c of
        None \<Rightarrow> None
      | Some deltas \<Rightarrow>
          Some (Errorf (foldl (\<lambda>m d. m @ ''  '' @ fmtv d @ [CHR 0x0A])
                          (''Actual schema for collection '' @ [CHR 0x27]
                             @ Name (collection self) @ [CHR 0x27]
                             @ '' differs from desired schema:'' @ [CHR 0x0A]) deltas) []),
      w\<lparr>trace := trace w @ [EvDiff (collection self) c]\<rparr>)"
  by (simp add: Migrate_diff_def emit_def Let_def split: option.splits)

text \<open>
  C1, at a backend whose lookup fails with an error other than collection not found:
  \<open>Migrate\<close> makes the lookup, keeps the (nil) collection the lookup returned and goes
  on to \<open>Diff\<close>; it returns what the diff gives (nil when \<open>Diff\<close> finds nothing), which
  is never the lookup's error.
\<close>

theorem Migrate_lookup_error_is_dropped:
  "snd (Migrate Diff fmtv \<lparr>db = unreachable_backend, collection = users_collection\<rparr>
          \<lparr>backendState = (), trace = []\<rparr>)
     = \<lparr>backendState = (),
        trace = [EvGetCollection ''users'', EvDiff users_collection None]\<rparr>
   \<and> fst (Migrate Diff fmtv \<lparr>db = unreachable_backend, collection = users_collection\<rparr>
            \<lparr>backendState = (), trace = []\<rparr>)
       \<noteq> Some (OtherError ''connection refused'')
   \<and> fst (Migrate (\<lambda>desired actual. None) fmtv
            \<lparr>db = unreachable_backend, collection = users_collection\<rparr>
            \<lparr>backendState = (), trace = []\<rparr>)
       = None"
proof -
  have run: "Migrate Diff fmtv \<lparr>db = unreachable_backend, collection = users_collection\<rparr>
               \<lparr>backendState = (), trace = []\<rparr>
             = Migrate_diff Diff fmtv \<lparr>db = unreachable_backend, collection = users_collection\<rparr>
                 None \<lparr>backendState = (), trace = [EvGetCollection ''users'']\<rparr>"
    for Diff :: "Collection \<Rightarrow> Collection option \<Rightarrow> 'x list option" and fmtv
    using Migrate_other_error
      [of "\<lparr>db = unreachable_backend, collection = users_collection\<rparr>"
          "\<lparr>backendState = (), trace = []\<rparr>" None "Some (OtherError ''connection refused'')" "()"]
    by (simp add: unreachable_backend_def users_collection_def)
  show ?thesis
    unfolding run by (simp add: Migrate_diff_result split: option.splits)
qed

text \<open>
  The path of \<open>Migrate\<close> for a collection that does not exist yet. When the first
  lookup reports that the collection is not found, \<open>Migrate\<close> calls \<open>CreateCollection\<close>;
  an error of the creation is returned unchanged; otherwise the collection is looked up
  again, an error of that lookup is returned unchanged, and the collection it returns is
  the one the desired schema is diffed against.
\<close>

theorem Migrate_creates_when_not_found:
  assumes "GetCollection (db self) (Name (collection self)) (backendState w)
             = ((c, Some CollectionNotFound), s1)"
  shows "(let name = Name (collection self);
              (err1, s2) = CreateCollection (db self) (collection self) s1;
              ((c2, err2), s3) = GetCollection (db self) name s2;
              w2 = \<lparr>backendState = s2,
                    trace = trace w @ [EvGetCollection name, EvCreateCollection (collection self)]\<rparr>;
              w3 = \<lparr>backendState = s3,
                    trace = trace w @ [EvGetCollection name, EvCreateCollection (collection self),
                                       EvGetCollection name]\<rparr>
          in Migrate Diff fmtv self w =
               (if err1 \<noteq> None then (err1, w2)
                else if err2 \<noteq> None then (err2, w3)
                else Migrate_diff Diff fmtv self c2 w3))"
proof -
  obtain err1 s2 where cr: "CreateCollection (db self) (collection self) s1 = (err1, s2)"
    by (cases "CreateCollection (db self) (collection self) s1")
  obtain c2 err2 s3 where g2: "GetCollection (db self) (Name (collection self)) s2 = ((c2, err2), s3)"
    by (cases "GetCollection (db self) (Name (collection self)) s2") auto
  show ?thesis
    using assms cr g2
    by (simp add: Migrate_def call_simp IsCollectionNotFoundErr_def Let_def)
qed

theorem Migrate_creates_when_not_found_witness:
  "Migrate (\<lambda>desired actual. if actual = Some desired then None else Some [''differs''])
       (\<lambda>d. d) \<lparr>db = memory_backend, collection = users_collection\<rparr>
       \<lparr>backendState = [], trace = []\<rparr>
     = (None, \<lparr>backendState = [users_collection],
              trace = [EvGetCollection ''users'', EvCreateCollection users_collection,
                       EvGetCollection ''users'',
                       EvDiff users_collection (Some users_collection)]\<rparr>)"
proof -
  have lookup: "GetCollection (db \<lparr>db = memory_backend, collection = users_collection\<rparr>)
                  (Name (collection \<lparr>db = memory_backend, collection = users_collection\<rparr>))
                  (backendState \<lparr>backendState = [], trace = []\<rparr>)
                = ((None, Some CollectionNotFound), [])"
    by (simp add: memory_backend_def)
  show ?thesis
    using Migrate_creates_when_not_found
      [OF lookup, where Diff = "\<lambda>desired actual. if actual = Some desired then None else Some [''differs'']"
         and fmtv = "\<lambda>d. d"]
    by (simp add: memory_backend_def users_collection_def Migrate_diff_result Let_def)
qed

section \<open>Identity resolution of MakeRecord\<close>

text \<open>
  C2, at a struct that has a field annotated as identity (tagged omit-empty, holding 0)
  and a field named \<open>ID\<close> (holding 7): the first loop skips the annotated field at line
  105, before it reads the identity flag, so the ID is still nil after the loop; the
  fallbacks, which the source reserves for a struct whose identity column was not
  explicitly specified, then run, and \<open>Record.ID\<close> is the value of the field named
  \<open>ID\<close>, not that of the annotated field.
\<close>

theorem MakeRecord_skipped_identity_falls_back_to_ID:
  "getFieldsForStruct zero_key_struct
     = Inr [(''key'', \<lparr>FieldValue = VInt 0, Identity = True, OmitEmpty = True\<rparr>)]
   \<and> FieldOk zero_key_struct ''ID'' = Some (VInt 7)
   \<and> MakeRecord users_collection (PtrToStruct zero_key_struct)
       = Inr \<lparr>ID = VInt 7, RFields = Map.empty\<rparr>"
  by (simp add: MakeRecord_def users_collection_def zero_key_struct_def NewRecord_def
      Set_field_def MakeRecord_identityField_def MakeRecord_fieldNamedID_def Let_def)

text \<open>
  The skip is not a rule that an empty identity is no identity: when the skipped field's
  tag happens to equal the collection's identity field, the second loop, which does not
  look at omit-empty, brings the same zero value back as the ID.
\<close>

lemma MakeRecord_skipped_identity_found_by_tag:
  "MakeRecord users_collection (PtrToStruct zero_id_struct)
     = Inr \<lparr>ID = VInt 0, RFields = Map.empty\<rparr>"
  by (simp add: MakeRecord_def users_collection_def zero_id_struct_def NewRecord_def
      Set_field_def MakeRecord_identityField_def MakeRecord_fieldNamedID_def Let_def)

text \<open>What the three steps select, for every input: the closed form of the definitions.\<close>

lemma Set_field_ID: "ID (Set_field r k v) = ID r"
  by (simp add: Set_field_def)

lemma MakeRecord_fields_ID:
  "MakeRecord_fields names fieldMap r = Inr r' \<Longrightarrow>
   ID r' = (case filter (\<lambda>(tagName, d). Identity d \<and> \<not> skipped d) fieldMap of
              [] \<Rightarrow> ID r
            | x # xs \<Rightarrow> FieldValue (snd (last (x # xs))))"
proof (induction fieldMap arbitrary: r)
  case Nil
  then show ?case by simp
next
  case (Cons p rest)
  obtain tagName d where p: "p = (tagName, d)" by (cases p)
  show ?case
  proof (cases "if OmitEmpty d then equalsZero (FieldValue d) else Inr False")
    case (Inl e)
    with Cons.prems p show ?thesis by simp
  next
    case (Inr skip)
    show ?thesis
    proof (cases skip)
      case True
      with Inr have sk: "skipped d"
        by (auto simp: skipped_def split: if_splits)
      from Cons.prems p Inr True have "MakeRecord_fields names rest r = Inr r'" by simp
      from Cons.IH [OF this] p sk show ?thesis by simp
    next
      case False
      with Inr have nsk: "\<not> skipped d"
        by (auto simp: skipped_def split: if_splits)
      show ?thesis
      proof (cases "Identity d")
        case True
        from Cons.prems p Inr False True
        have "MakeRecord_fields names rest (r\<lparr>ID := FieldValue d\<rparr>) = Inr r'" by simp
        from Cons.IH [OF this] p nsk True show ?thesis
          by (simp split: list.splits)
      next
        case nid: False
        show ?thesis
        proof (cases "tagName \<in> set names")
          case True
          from Cons.prems p Inr False nid True
          have "MakeRecord_fields names rest (Set_field r tagName (FieldValue d)) = Inr r'"
            by simp
          from Cons.IH [OF this] p nid show ?thesis
            by (simp add: Set_field_ID split: list.splits)
        next
          case notin: False
          from Cons.prems p Inr False nid notin
          have "MakeRecord_fields names rest r = Inr r'" by simp
          from Cons.IH [OF this] p nid show ?thesis by simp
        qed
      qed
    qed
  qed
qed

lemma find_tag:
  "find (\<lambda>(tagName, d). tagName = k) fieldMap =
     (case map_of fieldMap k of None \<Rightarrow> None | Some d \<Rightarrow> Some (k, d))"
  by (induction fieldMap) (auto split: option.splits)

lemma MakeRecord_ID:
  assumes "MakeRecord self (PtrToStruct s) = Inr r"
  shows "\<exists>fieldMap. getFieldsForStruct s = Inr fieldMap \<and> ID r = resolveIdentity self s fieldMap"
proof -
  from assms obtain fieldMap r1 where
    fm: "getFieldsForStruct s = Inr fieldMap" and
    l1: "MakeRecord_fields (map FieldName (Fields self)) fieldMap (NewRecord VNil) = Inr r1" and
    r: "r = MakeRecord_fieldNamedID s (MakeRecord_identityField self fieldMap r1)"
    by (auto simp: MakeRecord_def Let_def split: sum.splits)
  have id1: "ID r1 = explicitIdentity fieldMap"
    using MakeRecord_fields_ID [OF l1]
    by (simp add: explicitIdentity_def NewRecord_def split: list.splits)
  have id2: "ID (MakeRecord_identityField self fieldMap r1) =
               (if explicitIdentity fieldMap \<noteq> VNil then explicitIdentity fieldMap
                else namedIdentity self fieldMap)"
    using id1
    by (simp add: MakeRecord_identityField_def namedIdentity_def find_tag split: option.splits)
  have "ID r = resolveIdentity self s fieldMap"
    unfolding r using id2
    by (simp add: MakeRecord_fieldNamedID_def resolveIdentity_def literalID_def
        split: option.splits)
  with fm show ?thesis by blast
qed

lemma explicitIdentity_only:
  assumes "(tagName, d) \<in> set fieldMap" and "Identity d" and "\<not> skipped d"
    and "\<forall>t' d'. (t', d') \<in> set fieldMap \<and> Identity d' \<longrightarrow> d' = d"
  shows "explicitIdentity fieldMap = FieldValue d"
proof -
  let ?kept = "filter (\<lambda>(tagName, d). Identity d \<and> \<not> skipped d) fieldMap"
  from assms(1-3) have "(tagName, d) \<in> set ?kept" by simp
  then have ne: "?kept \<noteq> []" by (auto simp: filter_empty_conv)
  then have "last ?kept \<in> set ?kept" by (rule last_in_set)
  with assms(4) have "snd (last ?kept) = d"
    by (cases "last ?kept") auto
  moreover from ne obtain x xs where kept: "?kept = x # xs"
    by (auto simp: neq_Nil_conv)
  moreover have "explicitIdentity fieldMap = FieldValue (snd (last ?kept))"
    unfolding explicitIdentity_def kept by simp
  ultimately show ?thesis by simp
qed

text \<open>
  For every input \<open>MakeRecord\<close> accepts, the ID of the record is the closed form above.
  In particular, when the struct has one field annotated as identity, and the first loop
  does not skip it and its value is not nil, that field's value is \<open>Record.ID\<close>, whether
  or not there is a field named \<open>ID\<close>: the annotation is honoured except for the
  skipped field.
\<close>

theorem MakeRecord_identity_precedence:
  assumes "MakeRecord self (PtrToStruct s) = Inr r"
  shows "\<exists>fieldMap. getFieldsForStruct s = Inr fieldMap
           \<and> ID r = resolveIdentity self s fieldMap
           \<and> (\<forall>tagName d.
                 (tagName, d) \<in> set fieldMap \<and> Identity d \<and> \<not> skipped d
                 \<and> FieldValue d \<noteq> VNil
                 \<and> (\<forall>t' d'. (t', d') \<in> set fieldMap \<and> Identity d' \<longrightarrow> d' = d)
                 \<longrightarrow> ID r = FieldValue d)"
proof -
  from MakeRecord_ID [OF assms] obtain fieldMap where
    fm: "getFieldsForStruct s = Inr fieldMap" and
    res: "ID r = resolveIdentity self s fieldMap" by blast
  have "ID r = FieldValue d"
    if "(tagName, d) \<in> set fieldMap" "Identity d" "\<not> skipped d" "FieldValue d \<noteq> VNil"
       "\<forall>t' d'. (t', d') \<in> set fieldMap \<and> Identity d' \<longrightarrow> d' = d"
    for tagName d
    using explicitIdentity_only [OF that(1,2,3,5)] that(4) res
    by (simp add: resolveIdentity_def)
  with fm res show ?thesis by blast
qed

theorem MakeRecord_identity_precedence_witness:
  "MakeRecord users_collection (PtrToStruct key_struct)
     = Inr \<lparr>ID = VInt 3, RFields = Map.empty\<rparr>
   \<and> FieldOk key_struct ''ID'' = Some (VInt 7)
   \<and> resolveIdentity users_collection key_struct
        [(''key'', \<lparr>FieldValue = VInt 3, Identity = True, OmitEmpty = True\<rparr>)] = VInt 3"
proof -
  have run: "MakeRecord users_collection (PtrToStruct key_struct)
               = Inr \<lparr>ID = VInt 3, RFields = Map.empty\<rparr>"
    by (simp add: MakeRecord_def users_collection_def key_struct_def NewRecord_def
        Set_field_def MakeRecord_identityField_def MakeRecord_fieldNamedID_def Let_def)
  from MakeRecord_identity_precedence [OF run] obtain fieldMap where
    fm: "getFieldsForStruct key_struct = Inr fieldMap" and
    res: "ID \<lparr>ID = VInt 3, RFields = Map.empty\<rparr> = resolveIdentity users_collection key_struct fieldMap"
    by blast
  from fm have "fieldMap = [(''key'', \<lparr>FieldValue = VInt 3, Identity = True, OmitEmpty = True\<rparr>)]"
    by (simp add: key_struct_def)
  with res have "resolveIdentity users_collection key_struct
                   [(''key'', \<lparr>FieldValue = VInt 3, Identity = True, OmitEmpty = True\<rparr>)] = VInt 3"
    by simp
  with run show ?thesis by (simp add: key_struct_def)
qed

section \<open>The field mapping of MakeRecord\<close>

text \<open>
  C3, at a struct whose field named \<open>ID\<close> is tagged \<open>ident\<close>, for a collection that
  declares \<open>ident\<close>: the field wins the identity resolution by its Go name, the key
  \<open>ID\<close> is the one deleted, and the value stays in the field mapping under \<open>ident\<close>.
\<close>

theorem MakeRecord_ID_field_stays_under_its_tag:
  "MakeRecord accounts_collection (PtrToStruct ident_struct)
     = Inr \<lparr>ID = VInt 5, RFields = [''ident'' \<mapsto> VInt 5]\<rparr>"
  by (simp add: MakeRecord_def accounts_collection_def ident_struct_def NewRecord_def
      Set_field_def MakeRecord_identityField_def MakeRecord_fieldNamedID_def Let_def)

lemma MakeRecord_fields_dom:
  "MakeRecord_fields names fieldMap r = Inr r' \<Longrightarrow>
   dom (RFields r') \<subseteq> dom (RFields r) \<union> {t. \<exists>d. (t, d) \<in> set fieldMap \<and> \<not> Identity d}"
proof (induction fieldMap arbitrary: r)
  case Nil
  then show ?case by simp
next
  case (Cons p rest)
  obtain tagName d where p: "p = (tagName, d)" by (cases p)
  show ?case
  proof (cases "if OmitEmpty d then equalsZero (FieldValue d) else Inr False")
    case (Inl e)
    with Cons.prems p show ?thesis by simp
  next
    case (Inr skip)
    show ?thesis
    proof (cases skip)
      case True
      from Cons.prems p Inr True have "MakeRecord_fields names rest r = Inr r'" by simp
      from Cons.IH [OF this] show ?thesis by auto
    next
      case False
      show ?thesis
      proof (cases "Identity d")
        case True
        from Cons.prems p Inr False True
        have "MakeRecord_fields names rest (r\<lparr>ID := FieldValue d\<rparr>) = Inr r'" by simp
        from Cons.IH [OF this] show ?thesis by auto
      next
        case nid: False
        show ?thesis
        proof (cases "tagName \<in> set names")
          case True
          from Cons.prems p Inr False nid True
          have "MakeRecord_fields names rest (Set_field r tagName (FieldValue d)) = Inr r'"
            by simp
          moreover have "dom (RFields (Set_field r tagName (FieldValue d)))
                           = insert tagName (dom (RFields r))"
            by (simp add: Set_field_def)
          ultimately have "dom (RFields r')
                 \<subseteq> insert tagName (dom (RFields r))
                    \<union> {t. \<exists>d. (t, d) \<in> set rest \<and> \<not> Identity d}"
            using Cons.IH [of "Set_field r tagName (FieldValue d)"] by simp
          with p nid show ?thesis by auto
        next
          case notin: False
          from Cons.prems p Inr False nid notin
          have "MakeRecord_fields names rest r = Inr r'" by simp
          from Cons.IH [OF this] show ?thesis by auto
        qed
      qed
    qed
  qed
qed

lemma MakeRecord_identityField_dom:
  "dom (RFields (MakeRecord_identityField self fieldMap r)) \<subseteq> dom (RFields r)"
  by (auto simp: MakeRecord_identityField_def split: option.splits if_splits)

lemma MakeRecord_fieldNamedID_dom:
  "dom (RFields (MakeRecord_fieldNamedID s r)) \<subseteq> dom (RFields r)"
  by (auto simp: MakeRecord_fieldNamedID_def split: option.splits if_splits)

text \<open>
  The part of the field-mapping invariant that the code keeps, for a struct whose tag
  names are distinct (they are the keys of a map): a field annotated as identity never
  enters \<open>Record.Fields\<close>, and when no annotated field decides the identity, the key of
  the collection's identity field is not in \<open>Record.Fields\<close> either.
\<close>

theorem MakeRecord_identity_keys_removed:
  assumes "MakeRecord self (PtrToStruct s) = Inr r"
    and "getFieldsForStruct s = Inr fieldMap"
    and "distinct (map fst fieldMap)"
  shows "(\<forall>tagName d. (tagName, d) \<in> set fieldMap \<and> Identity d \<longrightarrow> RFields r tagName = None)
         \<and> (explicitIdentity fieldMap = VNil \<longrightarrow> RFields r (IdentityField self) = None)"
proof -
  from assms(1,2) obtain r1 where
    l1: "MakeRecord_fields (map FieldName (Fields self)) fieldMap (NewRecord VNil) = Inr r1" and
    r: "r = MakeRecord_fieldNamedID s (MakeRecord_identityField self fieldMap r1)"
    by (auto simp: MakeRecord_def Let_def split: sum.splits)
  have dom1: "dom (RFields r1) \<subseteq> {t. \<exists>d. (t, d) \<in> set fieldMap \<and> \<not> Identity d}"
    using MakeRecord_fields_dom [OF l1] by (simp add: NewRecord_def)
  have dom_r: "dom (RFields r) \<subseteq> dom (RFields (MakeRecord_identityField self fieldMap r1))"
    unfolding r by (rule MakeRecord_fieldNamedID_dom)
  have a: "RFields r tagName = None" if "(tagName, d) \<in> set fieldMap" "Identity d" for tagName d
  proof -
    have "tagName \<notin> dom (RFields r1)"
    proof
      assume "tagName \<in> dom (RFields r1)"
      with dom1 obtain d' where d': "(tagName, d') \<in> set fieldMap" "\<not> Identity d'" by auto
      from assms(3) that(1) d'(1) have "d' = d"
        by (meson eq_key_imp_eq_value)
      with d'(2) that(2) show False by simp
    qed
    with dom_r MakeRecord_identityField_dom [of self fieldMap r1] show ?thesis by auto
  qed
  have b: "RFields r (IdentityField self) = None" if none: "explicitIdentity fieldMap = VNil"
  proof -
    have "ID r1 = explicitIdentity fieldMap"
      using MakeRecord_fields_ID [OF l1]
      by (simp add: explicitIdentity_def NewRecord_def split: list.splits)
    with none have id1: "ID r1 = VNil" by simp
    have "IdentityField self \<notin> dom (RFields (MakeRecord_identityField self fieldMap r1))"
    proof (cases "map_of fieldMap (IdentityField self)")
      case None
      then have "IdentityField self \<notin> fst ` set fieldMap"
        by (simp add: map_of_eq_None_iff)
      with dom1 have "IdentityField self \<notin> dom (RFields r1)" by force
      with MakeRecord_identityField_dom [of self fieldMap r1] show ?thesis by auto
    next
      case (Some d)
      with id1 show ?thesis
        by (simp add: MakeRecord_identityField_def find_tag)
    qed
    with dom_r show ?thesis by auto
  qed
  from a b show ?thesis by blast
qed

theorem MakeRecord_identity_keys_removed_witness:
  "MakeRecord users_collection (PtrToStruct key_struct) = Inr \<lparr>ID = VInt 3, RFields = Map.empty\<rparr>
   \<and> distinct (map fst [(''key'', \<lparr>FieldValue = VInt 3, Identity = True, OmitEmpty = True\<rparr>)])
   \<and> RFields \<lparr>ID = VInt 3, RFields = Map.empty\<rparr> ''key'' = None"
proof -
  have run: "MakeRecord users_collection (PtrToStruct key_struct)
               = Inr \<lparr>ID = VInt 3, RFields = Map.empty\<rparr>"
    by (simp add: MakeRecord_def users_collection_def key_struct_def NewRecord_def
        Set_field_def MakeRecord_identityField_def MakeRecord_fieldNamedID_def Let_def)
  have fm: "getFieldsForStruct key_struct
              = Inr [(''key'', \<lparr>FieldValue = VInt 3, Identity = True, OmitEmpty = True\<rparr>)]"
    by (simp add: key_struct_def)
  have d: "distinct (map fst [(''key'', \<lparr>FieldValue = VInt 3, Identity = True, OmitEmpty = True\<rparr>)])"
    by simp
  from MakeRecord_identity_keys_removed [OF run fm d] run d show ?thesis by simp
qed

section \<open>filterFromRequest\<close>

lemma QInt_absent: "QueryParams req k = None \<Longrightarrow> QInt req k fallback = fallback"
  by (simp add: QInt_def Q_def)

lemma filter_Parse_all: "filter_Parse operators ''all'' = Inr filter_New"
  by (simp add: filter_Parse_def)

lemma filter_Parse_status:
  "filter_Parse operators ''status/eq/active''
     = Inr (filter_New\<lparr>Criteria :=
              [\<lparr>CField = ''status'', COperator = Is, CValues = [''active'']\<rparr>]\<rparr>)"
  by (simp add: filter_Parse_def operatorOf_def)

lemma filterFromRequest_string:
  assumes "QueryParams req ''limit'' = None"
    and "Parse env q = Inr flt"
  shows "\<exists>f. filterFromRequest env req (FString q) defaultLimit = Inr f
           \<and> Limit f = defaultLimit
           \<and> (Limit f \<le> 0 \<longleftrightarrow> defaultLimit \<le> 0)
           \<and> Offset f = QInt req ''offset'' 0
           \<and> Criteria f = Criteria flt"
  using assms
  by (simp add: filterFromRequest_def filterFromRequest_input_def QInt_absent Let_def)

text \<open>
  C4, amended. For a request with no limit parameter and the query text \<open>all\<close> (or any
  other text that \<open>filter.Parse\<close> accepts), \<open>filterFromRequest\<close> returns the parsed filter
  with its limit set to the caller's default limit: the limit is unbounded (\<open>\<le> 0\<close>)
  exactly when the caller's default is. And parsing \<open>status/eq/active\<close> produces a filter
  with exactly one condition, of field \<open>status\<close>, operator \<open>Is\<close> and values \<open>[active]\<close>,
  which \<open>filterFromRequest\<close> hands on unchanged.
\<close>

theorem filterFromRequest_default_limit:
  assumes "QueryParams req ''limit'' = None"
    and "Parse env q = Inr flt"
  shows "(\<exists>f. filterFromRequest env req (FString q) defaultLimit = Inr f
            \<and> Limit f = defaultLimit
            \<and> (Limit f \<le> 0 \<longleftrightarrow> defaultLimit \<le> 0)
            \<and> Offset f = QInt req ''offset'' 0
            \<and> Criteria f = Criteria flt)
         \<and> filter_Parse operators ''all'' = Inr filter_New
         \<and> filter_Parse operators ''status/eq/active''
             = Inr \<lparr>Criteria = [\<lparr>CField = ''status'', COperator = Is, CValues = [''active'']\<rparr>],
                    Sort = [], FFields = [], Limit = 0, Offset = 0\<rparr>
         \<and> (Parse env = filter_Parse operators \<longrightarrow>
              (\<exists>f. filterFromRequest env req (FString ''status/eq/active'') defaultLimit = Inr f
                 \<and> Criteria f = [\<lparr>CField = ''status'', COperator = Is, CValues = [''active'']\<rparr>]
                 \<and> Limit f = defaultLimit))"
proof -
  have parsed: "filter_Parse operators ''status/eq/active''
             = Inr \<lparr>Criteria = [\<lparr>CField = ''status'', COperator = Is, CValues = [''active'']\<rparr>],
                    Sort = [], FFields = [], Limit = 0, Offset = 0\<rparr>"
    by (simp add: filter_Parse_status filter_New_def)
  have through: "\<exists>f. filterFromRequest env req (FString ''status/eq/active'') defaultLimit = Inr f
                 \<and> Criteria f = [\<lparr>CField = ''status'', COperator = Is, CValues = [''active'']\<rparr>]
                 \<and> Limit f = defaultLimit"
    if "Parse env = filter_Parse operators"
  proof -
    from that parsed
    have "Parse env ''status/eq/active''
            = Inr \<lparr>Criteria = [\<lparr>CField = ''status'', COperator = Is, CValues = [''active'']\<rparr>],
                   Sort = [], FFields = [], Limit = 0, Offset = 0\<rparr>"
      by simp
    from filterFromRequest_string [OF assms(1) this, of defaultLimit] show ?thesis
      by auto
  qed
  from filterFromRequest_string [OF assms, of defaultLimit] filter_Parse_all [of operators]
    parsed through
  show ?thesis by blast
qed

theorem filterFromRequest_default_limit_witness:
  "QueryParams all_request ''limit'' = None
   \<and> Parse path_filters ''all'' = Inr filter_New
   \<and> filterFromRequest path_filters all_request (FString ''all'') 0
       = Inr filter_New
   \<and> filterFromRequest path_filters all_request (FString ''status/eq/active'') 25
       = Inr \<lparr>Criteria = [\<lparr>CField = ''status'', COperator = Is, CValues = [''active'']\<rparr>],
              Sort = [], FFields = [], Limit = 25, Offset = 0\<rparr>"
proof -
  have lim: "QueryParams all_request ''limit'' = None"
    by (simp add: all_request_def)
  have all: "Parse path_filters ''all'' = Inr filter_New"
    by (simp add: path_filters_def filter_Parse_all)
  have same: "Parse path_filters = filter_Parse (\<lambda>token. None)"
    by (simp add: path_filters_def)
  have off: "QInt all_request ''offset'' 0 = 0"
    by (simp add: QInt_def Q_def all_request_def)
  from filterFromRequest_default_limit
         [OF lim all, where defaultLimit = 0 and operators = "\<lambda>token. None"]
  obtain f where f: "filterFromRequest path_filters all_request (FString ''all'') 0 = Inr f"
      "Limit f = 0" "Offset f = QInt all_request ''offset'' 0" "Criteria f = Criteria filter_New"
    by blast
  have f_all: "filterFromRequest path_filters all_request (FString ''all'') 0 = Inr filter_New"
    by (simp add: filterFromRequest_def filterFromRequest_input_def all Let_def QInt_def Q_def
        all_request_def filter_New_def)
  have f_status: "filterFromRequest path_filters all_request (FString ''status/eq/active'') 25
       = Inr \<lparr>Criteria = [\<lparr>CField = ''status'', COperator = Is, CValues = [''active'']\<rparr>],
              Sort = [], FFields = [], Limit = 25, Offset = 0\<rparr>"
    by (simp add: filterFromRequest_def filterFromRequest_input_def same filter_Parse_status
        Let_def QInt_def Q_def all_request_def filter_New_def)
  from f lim all f_all f_status show ?thesis by simp
qed

text \<open>
  The claim as stated fails in the query handler, which passes the default result limit
  of 25: for the query text \<open>all\<close> and no limit parameter the filter that reaches the
  indexer has limit 25.
\<close>

theorem filterFromRequest_all_counterexample:
  "QueryParams all_request ''limit'' = None
   \<and> DefaultResultLimit = 25
   \<and> filterFromRequest path_filters all_request (FString ''all'') DefaultResultLimit
       = Inr (filter_New\<lparr>Limit := 25\<rparr>)
   \<and> \<not> Limit (filter_New\<lparr>Limit := 25\<rparr>) \<le> 0
   \<and> queryHandler path_filters memory_backend all_request
        \<lparr>backendState = [users_collection], trace = []\<rparr>
      = \<lparr>backendState = [users_collection],
         trace = [EvGetCollection ''users'',
                  EvWithSearch (Some users_collection),
                  EvQuery (Search users_collection) users_collection (filter_New\<lparr>Limit := 25\<rparr>),
                  EvRespondJSON (PRecordSet []) None]\<rparr>"
proof -
  have f: "filterFromRequest path_filters all_request (FString ''all'') DefaultResultLimit
             = Inr (filter_New\<lparr>Limit := 25\<rparr>)"
    by (simp add: all_request_def path_filters_def filter_Parse_all filter_New_def
        filterFromRequest_def filterFromRequest_input_def QInt_def Q_def Let_def
        DefaultResultLimit_def)
  have split: "Split (Param all_request ''collection'') CHR '':'' = [''users'']"
    by (simp add: all_request_def Param_def)
  have inp: "queryHandler_input all_request = Inr (FString ''all'')"
    by (simp add: queryHandler_input_def all_request_def Param_def)
  have same: "withRequestParams all_request users_collection = users_collection"
    by (simp add: withRequestParams_def all_request_def Q_def)
  have lookup: "GetCollection memory_backend ''users'' [users_collection]
                  = ((Some users_collection, None), [users_collection])"
    by (simp add: memory_backend_def users_collection_def)
  have h: "queryHandler path_filters memory_backend all_request
             \<lparr>backendState = [users_collection], trace = []\<rparr>
           = \<lparr>backendState = [users_collection],
              trace = [EvGetCollection ''users'',
                       EvWithSearch (Some users_collection),
                       EvQuery (Search users_collection) users_collection
                         (filter_New\<lparr>Limit := 25\<rparr>),
                       EvRespondJSON (PRecordSet []) None]\<rparr>"
    by (simp add: queryHandler_def split queryHandler_run_def inp f call_def lookup same
        queryHandler_search_def queryHandler_query_def RespondJSON_def emit_def)
      (simp add: memory_backend_def queryHandler_query_def call_def RespondJSON_def emit_def)
  show ?thesis
    using f h by (simp add: all_request_def DefaultResultLimit_def filter_New_def)
qed

section \<open>Batch schema creation\<close>

lemma createAll_length: "length (fst (createAll backend cs s)) = length cs"
proof (induction cs arbitrary: s)
  case Nil
  show ?case by simp
next
  case (Cons c cs)
  obtain r s1 where step: "CreateCollection backend c s = (r, s1)"
    by (cases "CreateCollection backend c s")
  from Cons [of s1] step show ?case
    by (auto split: prod.splits)
qed

lemma failures_simps:
  "failures [] = []"
  "failures (None # rs) = failures rs"
  "failures (Some e # rs) = e # failures rs"
  by (simp_all add: failures_def)

lemma postSchema_loop_batch:
  "n \<noteq> 1 \<Longrightarrow>
   postSchema_loop backend n cs errors w =
     (Some (errors @ failures (fst (createAll backend cs (backendState w)))),
      \<lparr>backendState = snd (createAll backend cs (backendState w)),
       trace = trace w @ batch_events cs (fst (createAll backend cs (backendState w)))\<rparr>)"
proof (induction cs arbitrary: errors w)
  case Nil
  show ?case by (cases w) (simp add: failures_simps)
next
  case (Cons c cs)
  obtain r s1 where step: "CreateCollection backend c (backendState w) = (r, s1)"
    by (cases "CreateCollection backend c (backendState w)")
  obtain rs s2 where tail: "createAll backend cs s1 = (rs, s2)"
    by (cases "createAll backend cs s1")
  show ?case
  proof (cases r)
    case None
    with Cons step tail show ?thesis
      by (simp add: call_simp RespondJSON_def emit_def failures_simps)
  next
    case (Some e)
    with Cons step tail show ?thesis
      by (simp add: call_simp failures_simps)
  qed
qed

text \<open>
  The calls the handler makes. When more than one collection is requested, every
  collection is attempted in turn (one outcome per collection, the backend keeping what
  each creation did), each success is answered with 201 as it happens, and if any
  creation failed the handler ends by calling \<open>RespondJSON\<close> with all the failures, in
  order, and the bad-request status. When exactly one collection is requested and its
  creation fails, the handler responds with that error at once: with the conflict status
  if the error says the collection exists, and with no status argument otherwise.
\<close>

theorem postSchema_partial_failure:
  "(1 < length cs \<longrightarrow>
      (let (rs, s') = createAll backend cs (backendState w)
       in length rs = length cs
          \<and> postSchema backend (JsonArray cs) w =
              \<lparr>backendState = s',
               trace = trace w @ batch_events cs rs
                       @ (if failures rs = [] then []
                          else [EvRespondJSON (PErrors (failures rs)) (Some StatusBadRequest)])\<rparr>))
   \<and> (\<forall>e s'. CreateCollection backend c (backendState w) = (Some e, s') \<longrightarrow>
         postSchema backend (JsonObject c) w =
           \<lparr>backendState = s',
            trace = trace w @
              [EvCreateCollection c,
               EvRespondJSON (PError e) (if IsExistError e then Some StatusConflict else None)]\<rparr>
         \<and> postSchema backend (JsonArray [c]) w = postSchema backend (JsonObject c) w)
   \<and> StatusBadRequest = 400 \<and> StatusConflict = 409"
proof -
  have batch: "1 < length cs \<longrightarrow>
      (let (rs, s') = createAll backend cs (backendState w)
       in length rs = length cs
          \<and> postSchema backend (JsonArray cs) w =
              \<lparr>backendState = s',
               trace = trace w @ batch_events cs rs
                       @ (if failures rs = [] then []
                          else [EvRespondJSON (PErrors (failures rs)) (Some StatusBadRequest)])\<rparr>)"
  proof
    assume many: "1 < length cs"
    obtain rs s' where all: "createAll backend cs (backendState w) = (rs, s')"
      by (cases "createAll backend cs (backendState w)")
    have len: "length rs = length cs"
      using createAll_length [of backend cs "backendState w"] all by simp
    have loop: "postSchema_loop backend (length cs) cs [] w =
                  (Some (failures rs), \<lparr>backendState = s', trace = trace w @ batch_events cs rs\<rparr>)"
      using many all postSchema_loop_batch [of "length cs" backend cs "[]" w] by simp
    show "let (rs, s') = createAll backend cs (backendState w)
          in length rs = length cs
             \<and> postSchema backend (JsonArray cs) w =
                 \<lparr>backendState = s',
                  trace = trace w @ batch_events cs rs
                          @ (if failures rs = [] then []
                             else [EvRespondJSON (PErrors (failures rs)) (Some StatusBadRequest)])\<rparr>"
      using all len loop
      by (simp add: postSchema_def postSchema_create_def RespondJSON_def emit_def)
  qed
  have single: "\<forall>e s'. CreateCollection backend c (backendState w) = (Some e, s') \<longrightarrow>
         postSchema backend (JsonObject c) w =
           \<lparr>backendState = s',
            trace = trace w @
              [EvCreateCollection c,
               EvRespondJSON (PError e) (if IsExistError e then Some StatusConflict else None)]\<rparr>
         \<and> postSchema backend (JsonArray [c]) w = postSchema backend (JsonObject c) w"
    by (simp add: postSchema_def postSchema_create_def call_simp RespondJSON_def emit_def)
  from batch single show ?thesis
    by (simp add: StatusBadRequest_def StatusConflict_def)
qed

theorem postSchema_partial_failure_witness:
  "postSchema memory_backend (JsonArray [users_collection, orders_collection])
       \<lparr>backendState = [users_collection], trace = []\<rparr>
     = \<lparr>backendState = [users_collection, orders_collection],
        trace = [EvCreateCollection users_collection,
                 EvCreateCollection orders_collection,
                 EvRespondJSON (PCollection orders_collection) (Some 201),
                 EvRespondJSON (PErrors [ExistsError]) (Some 400)]\<rparr>
   \<and> postSchema memory_backend (JsonObject users_collection)
       \<lparr>backendState = [users_collection], trace = []\<rparr>
     = \<lparr>backendState = [users_collection],
        trace = [EvCreateCollection users_collection,
                 EvRespondJSON (PError ExistsError) (Some 409)]\<rparr>"
  using postSchema_partial_failure
    [of "[users_collection, orders_collection]" memory_backend
        "\<lparr>backendState = [users_collection], trace = []\<rparr>" users_collection]
  by (simp add: memory_backend_def users_collection_def orders_collection_def
      failures_simps StatusCreated_def IsExistError_def)

text \<open>
  In a batch, a creation that succeeds is answered before the failures are: whenever one
  of the outcomes is a success, the first \<open>RespondJSON\<close> after the batch starts carries
  the status 201.
\<close>

lemma batch_events_status:
  "length rs = length cs \<Longrightarrow> None \<in> set rs \<Longrightarrow>
   responseStatus (batch_events cs rs @ evs) = Some (Some StatusCreated)"
proof (induction cs rs rule: batch_events.induct)
  case (1 c cs r rs)
  show ?case
  proof (cases r)
    case None
    then show ?thesis by simp
  next
    case (Some e)
    with 1 show ?thesis by simp
  qed
qed simp_all

lemma postSchema_batch_status:
  assumes "1 < length cs" and "trace w = []"
    and "None \<in> set (fst (createAll backend cs (backendState w)))"
  shows "responseStatus (trace (postSchema backend (JsonArray cs) w)) = Some (Some StatusCreated)"
proof -
  obtain rs s' where all: "createAll backend cs (backendState w) = (rs, s')"
    by (cases "createAll backend cs (backendState w)")
  have len: "length rs = length cs"
    using createAll_length [of backend cs "backendState w"] all by simp
  from assms(3) all have ok: "None \<in> set rs" by simp
  from postSchema_partial_failure [of cs backend w] assms(1) all
  have "trace (postSchema backend (JsonArray cs) w) =
          trace w @ batch_events cs rs
            @ (if failures rs = [] then []
               else [EvRespondJSON (PErrors (failures rs)) (Some StatusBadRequest)])"
    by simp
  with assms(2) batch_events_status [OF len ok] show ?thesis by simp
qed

text \<open>
  C5, at a batch of two collections of which the first exists already and the second
  is created: both are attempted and the second stays created; the handler answers the
  creation with 201, and only then calls \<open>RespondJSON\<close> with the collected failure and
  the bad-request status, on the same writer. The status of the response is the 201 of
  the first call, not the bad-request status.
\<close>

theorem postSchema_failures_follow_created_response:
  "postSchema memory_backend (JsonArray [users_collection, orders_collection])
       \<lparr>backendState = [users_collection], trace = []\<rparr>
     = \<lparr>backendState = [users_collection, orders_collection],
        trace = [EvCreateCollection users_collection,
                 EvCreateCollection orders_collection,
                 EvRespondJSON (PCollection orders_collection) (Some 201),
                 EvRespondJSON (PErrors [ExistsError]) (Some 400)]\<rparr>
   \<and> responseStatus
        (trace (postSchema memory_backend (JsonArray [users_collection, orders_collection])
                  \<lparr>backendState = [users_collection], trace = []\<rparr>))
       = Some (Some 201)"
proof -
  have run: "postSchema memory_backend (JsonArray [users_collection, orders_collection])
               \<lparr>backendState = [users_collection], trace = []\<rparr>
             = \<lparr>backendState = [users_collection, orders_collection],
                trace = [EvCreateCollection users_collection,
                         EvCreateCollection orders_collection,
                         EvRespondJSON (PCollection orders_collection) (Some 201),
                         EvRespondJSON (PErrors [ExistsError]) (Some 400)]\<rparr>"
    by (simp add: postSchema_def postSchema_create_def call_simp RespondJSON_def emit_def
        memory_backend_def users_collection_def orders_collection_def
        StatusCreated_def StatusBadRequest_def)
  show ?thesis
    unfolding run by simp
qed

section \<open>The query handler rejects a join of more than two collections\<close>

lemma more_than_two: "2 < length xs \<Longrightarrow> \<exists>a b c rest. xs = a # b # c # rest"
proof -
  assume "2 < length xs"
  then have "Suc (Suc (Suc 0)) \<le> length xs" by simp
  then show ?thesis by (auto simp: Suc_le_length_iff)
qed

text \<open>
  C6. When the join specification names more than two collections, the handler does
  one thing: it responds with the error and the bad-request status. The backend state is
  untouched and nothing else enters the trace (no lookup, no indexer, no query), whatever
  the filter parser, the backend and the rest of the request are.
\<close>

theorem queryHandler_rejects_third_collection:
  assumes "length (Split (Param req ''collection'') CHR '':'') > 2"
  shows "queryHandler env backend req w =
           w\<lparr>trace := trace w @
                [EvRespondJSON
                   (PError (Errorf ''Only two (2) joined collections are supported'' []))
                   (Some StatusBadRequest)]\<rparr>
         \<and> StatusBadRequest = 400"
proof -
  obtain a b c rest where "Split (Param req ''collection'') CHR '':'' = a # b # c # rest"
    using assms more_than_two by blast
  then show ?thesis
    by (simp add: queryHandler_def RespondJSON_def emit_def StatusBadRequest_def)
qed

theorem queryHandler_rejects_third_collection_witness:
  "length (Split (Param three_way_request ''collection'') CHR '':'') > 2
   \<and> queryHandler two_query_filters memory_backend three_way_request
         \<lparr>backendState = [], trace = []\<rparr>
       = \<lparr>backendState = [],
          trace = [EvRespondJSON
                     (PError (Errorf ''Only two (2) joined collections are supported'' []))
                     (Some 400)]\<rparr>"
  using queryHandler_rejects_third_collection
    [of three_way_request two_query_filters memory_backend
        "\<lparr>backendState = [], trace = []\<rparr>"]
  by (simp add: three_way_request_def Param_def StatusBadRequest_def)

section \<open>The SQL aggregator\<close>

lemma aggregate_single:
  "aggregate self c [] [\<lparr>Aggregation = aggregation, AggField = field\<rparr>] f resultFn =
     (case Initialize self (scalarGen c aggregation field) (Name c) of
        None \<Rightarrow>
          (case Render self (scalarGen c aggregation field) (Name c) (firstFilter f) of
             Inr (stmt, values) \<Rightarrow>
               (case dbQuery self stmt values of
                  Inr rows \<Rightarrow> resultFn rows (scalarGen c aggregation field) c (firstFilter f)
                | Inl err \<Rightarrow> (None, Some err))
           | Inl err \<Rightarrow> (None, Some err))
      | Some err \<Rightarrow> (None, Some err))"
  by (simp add: aggregate_def scalarGen_def firstFilter_def makeQueryGen_def
      AggregateByField_def Let_def split: option.splits sum.splits prod.splits)

lemma extractSingleFloat64_cases:
  "extractSingleFloat64 [] g c f = (Some 0, None)"
  "extractSingleFloat64 ([SqlNull] # rest) g c f = (Some 0, None)"
  "extractSingleFloat64 ([SqlFloat x] # rest) g c f = (Some x, None)"
  by (simp_all add: extractSingleFloat64_def Scan_def)

lemma uint64_zero: "uint64 self 0 = 0"
  by (simp add: uint64_def)

text \<open>
  C7. \<open>Count\<close> hands \<open>Initialize\<close> and \<open>filter.Render\<close> a generator with exactly one
  aggregate: the count of the collection's identity field when that is not empty, and
  the count of the literal 1 otherwise. Its result is that of the float aggregate over
  this field, converted to uint64.
\<close>

theorem Count_whatToCount:
  "Count self c f =
     (let whatToCount = (if IdentityField c \<noteq> [] then IdentityField c else ''1'');
          g = \<lparr>genCollection = c, genGroupBy = [],
               genAggregateBy = [\<lparr>Aggregation = filter_Count, AggField = whatToCount\<rparr>]\<rparr>;
          flt = (case f of [] \<Rightarrow> filter_New | f0 # _ \<Rightarrow> f0)
      in case Initialize self g (Name c) of
           Some err \<Rightarrow> (0, Some err)
         | None \<Rightarrow>
             (case Render self g (Name c) flt of
                Inl err \<Rightarrow> (0, Some err)
              | Inr (stmt, values) \<Rightarrow>
                  (case dbQuery self stmt values of
                     Inl err \<Rightarrow> (0, Some err)
                   | Inr rows \<Rightarrow>
                       (case extractSingleFloat64 rows g c flt of
                          (Some v, None) \<Rightarrow> (uint64 self v, None)
                        | (None, None) \<Rightarrow>
                            (0, Some (Panic ''interface conversion: interface is nil''))
                        | (_, Some err) \<Rightarrow> (0, Some err)))))"
  by (simp add: Count_def IsZero_def aggregateFloat_def aggregate_single scalarGen_def
      firstFilter_def uint64_zero Let_def
      split: option.splits sum.splits prod.splits list.splits)

text \<open>
  C8. Whenever the statement of a scalar aggregate executes and its first row, if any,
  is one cell holding NULL or a number, the aggregate returns the number of that cell,
  with 0 for NULL and 0 for no row at all, and no error; \<open>Count\<close> returns it converted
  to uint64, which is 0 for 0. Rows after the first are not read.
\<close>

theorem scalar_aggregate_first_cell:
  assumes "Initialize self (scalarGen c aggregation field) (Name c) = None"
    and "Render self (scalarGen c aggregation field) (Name c) (firstFilter f) = Inr (stmt, values)"
    and "dbQuery self stmt values = Inr rows"
    and "oneNumericCell rows"
  shows "aggregateFloat self c aggregation field f = (firstCell rows, None)
         \<and> (aggregation = filter_Sum \<longrightarrow> Sum self c field f = (firstCell rows, None))
         \<and> (aggregation = filter_Minimum \<longrightarrow> Minimum self c field f = (firstCell rows, None))
         \<and> (aggregation = filter_Maximum \<longrightarrow> Maximum self c field f = (firstCell rows, None))
         \<and> (aggregation = filter_Average \<longrightarrow> Average self c field f = (firstCell rows, None))
         \<and> (aggregation = filter_Count
              \<and> field = (if IdentityField c \<noteq> [] then IdentityField c else ''1'')
              \<longrightarrow> Count self c f = (uint64 self (firstCell rows), None))
         \<and> firstCell [] = 0
         \<and> (\<forall>rest. firstCell ([SqlNull] # rest) = 0)
         \<and> (\<forall>x rest. firstCell ([SqlFloat x] # rest) = x)
         \<and> uint64 self 0 = 0"
proof -
  have cell1: "extractSingleFloat64 rows (scalarGen c aggregation field) c (firstFilter f)
                   = (Some (firstCell rows), None)"
    using assms(4)
    by (auto simp: oneNumericCell_def firstCell_def extractSingleFloat64_def Scan_def
        split: list.splits cell.splits)
  have flt1: "aggregateFloat self c aggregation field f = (firstCell rows, None)"
    using assms(1-3) cell1 by (simp add: aggregateFloat_def aggregate_single)
  have cnt1: "aggregation = filter_Count
                 \<and> field = (if IdentityField c \<noteq> [] then IdentityField c else ''1'')
               \<longrightarrow> Count self c f = (uint64 self (firstCell rows), None)"
    using flt1 by (auto simp: Count_def IsZero_def Let_def)
  have cells: "firstCell [] = 0" "\<forall>rest. firstCell ([SqlNull] # rest) = 0"
    "\<forall>x rest. firstCell ([SqlFloat x] # rest) = x"
    by (simp_all add: firstCell_def)
  from flt1 cnt1 cells show ?thesis
    by (auto simp: Sum_def Minimum_def Maximum_def Average_def uint64_zero)
qed

theorem scalar_aggregate_first_cell_witness:
  "Sum (rows_backend []) orders_collection ''total'' [] = (0, None)
   \<and> Count (rows_backend []) orders_collection [] = (0, None)
   \<and> Sum (rows_backend [[SqlNull]]) orders_collection ''total'' [] = (0, None)
   \<and> Average (rows_backend [[SqlFloat 3], [SqlFloat 9]]) orders_collection ''total'' [] = (3, None)
   \<and> Count (rows_backend [[SqlFloat 3]]) orders_collection [] = (3, None)"
proof -
  have sum0: "Sum (rows_backend []) orders_collection ''total'' [] = (0, None)"
    using scalar_aggregate_first_cell
      [of "rows_backend []" orders_collection filter_Sum "''total''" "[]" "''SELECT''" "[]" "[]"]
    by (simp add: rows_backend_def oneNumericCell_def firstCell_def)
  have count0: "Count (rows_backend []) orders_collection [] = (0, None)"
    using scalar_aggregate_first_cell
      [of "rows_backend []" orders_collection filter_Count "''1''" "[]" "''SELECT''" "[]" "[]"]
    by (simp add: rows_backend_def oneNumericCell_def firstCell_def orders_collection_def)
  have sumnull: "Sum (rows_backend [[SqlNull]]) orders_collection ''total'' [] = (0, None)"
    using scalar_aggregate_first_cell
      [of "rows_backend [[SqlNull]]" orders_collection filter_Sum "''total''" "[]" "''SELECT''"
          "[]" "[[SqlNull]]"]
    by (simp add: rows_backend_def oneNumericCell_def firstCell_def)
  have avg: "Average (rows_backend [[SqlFloat 3], [SqlFloat 9]]) orders_collection ''total'' []
               = (3, None)"
    using scalar_aggregate_first_cell
      [of "rows_backend [[SqlFloat 3], [SqlFloat 9]]" orders_collection filter_Average
          "''total''" "[]" "''SELECT''" "[]" "[[SqlFloat 3], [SqlFloat 9]]"]
    by (simp add: rows_backend_def oneNumericCell_def firstCell_def)
  have count3: "Count (rows_backend [[SqlFloat 3]]) orders_collection [] = (3, None)"
    using scalar_aggregate_first_cell
      [of "rows_backend [[SqlFloat 3]]" orders_collection filter_Count "''1''" "[]" "''SELECT''"
          "[]" "[[SqlFloat 3]]"]
    by (simp add: rows_backend_def oneNumericCell_def firstCell_def orders_collection_def
        uint64_def)
  from sum0 count0 sumnull avg count3 show ?thesis by simp
qed

section \<open>Frame property of the per-request collection override\<close>

lemma withRequestParams_frame:
  "Name (withRequestParams req c) = Name c"
  "Fields (withRequestParams req c) = Fields c"
  "IdentityField (withRequestParams req c) = IdentityField c"
  "IdentityFieldType (withRequestParams req c) = IdentityFieldType c"
  "Options (withRequestParams req c) = Options c"
  by (simp_all add: withRequestParams_def Let_def)

lemma withRequestParams_index:
  "IndexName (withRequestParams req c) =
     (if Q req ''index'' [] \<noteq> [] then Q req ''index'' [] else IndexName c)"
  "IndexCompoundFields (withRequestParams req c) =
     (if Q req ''keys'' [] \<noteq> [] then Split (Q req ''keys'' []) CHR '','' else IndexCompoundFields c)"
  "IndexCompoundFieldJoiner (withRequestParams req c) =
     (if Q req ''joiner'' [] \<noteq> [] then Q req ''joiner'' [] else IndexCompoundFieldJoiner c)"
  by (simp_all add: withRequestParams_def Let_def)

lemma Q_absent: "QueryParams req k = None \<Longrightarrow> Q req k [] = []"
  by (simp add: Q_def)

text \<open>
  C9. For a registered collection at address \<open>p\<close> of the store, the function returns a
  fresh address (the end of the store) holding a copy \<open>c'\<close>; every cell that existed
  before, the original included, holds what it held; the copy agrees with the original
  on every member except \<open>IndexName\<close>, \<open>IndexCompoundFields\<close> and
  \<open>IndexCompoundFieldJoiner\<close>, and each of these differs only if the request carries
  the corresponding parameter (index, keys, joiner).
\<close>

theorem injectRequestParamsIntoCollection_frame:
  assumes "p < length h"
  shows "\<exists>c'. injectRequestParamsIntoCollection req p h = Inr (length h, h @ [c'])
           \<and> (h @ [c']) ! p = h ! p
           \<and> c' = (h ! p)\<lparr>IndexName := IndexName c',
                           IndexCompoundFields := IndexCompoundFields c',
                           IndexCompoundFieldJoiner := IndexCompoundFieldJoiner c'\<rparr>
           \<and> (IndexName c' \<noteq> IndexName (h ! p) \<longrightarrow> QueryParams req ''index'' \<noteq> None)
           \<and> (IndexCompoundFields c' \<noteq> IndexCompoundFields (h ! p)
                \<longrightarrow> QueryParams req ''keys'' \<noteq> None)
           \<and> (IndexCompoundFieldJoiner c' \<noteq> IndexCompoundFieldJoiner (h ! p)
                \<longrightarrow> QueryParams req ''joiner'' \<noteq> None)"
proof -
  let ?c = "withRequestParams req (h ! p)"
  have run: "injectRequestParamsIntoCollection req p h = Inr (length h, h @ [?c])"
    using assms by (simp add: injectRequestParamsIntoCollection_def Let_def)
  have old: "(h @ [?c]) ! p = h ! p"
    using assms by (simp add: nth_append)
  have same: "?c = (h ! p)\<lparr>IndexName := IndexName ?c,
                            IndexCompoundFields := IndexCompoundFields ?c,
                            IndexCompoundFieldJoiner := IndexCompoundFieldJoiner ?c\<rparr>"
    by (simp add: withRequestParams_def Let_def)
  have i1: "IndexName ?c \<noteq> IndexName (h ! p) \<longrightarrow> QueryParams req ''index'' \<noteq> None"
    using Q_absent [of req "''index''"] by (auto simp: withRequestParams_index)
  have i2: "IndexCompoundFields ?c \<noteq> IndexCompoundFields (h ! p)
              \<longrightarrow> QueryParams req ''keys'' \<noteq> None"
    using Q_absent [of req "''keys''"] by (auto simp: withRequestParams_index)
  have i3: "IndexCompoundFieldJoiner ?c \<noteq> IndexCompoundFieldJoiner (h ! p)
              \<longrightarrow> QueryParams req ''joiner'' \<noteq> None"
    using Q_absent [of req "''joiner''"] by (auto simp: withRequestParams_index)
  from run old same i1 i2 i3 show ?thesis
    by blast
qed

theorem injectRequestParamsIntoCollection_frame_witness:
  "(0::nat) < length [users_collection]
   \<and> injectRequestParamsIntoCollection keys_request 0 [users_collection]
       = Inr (1, [users_collection,
                  users_collection\<lparr>IndexName := ''users_v2'',
                                    IndexCompoundFields := [''a'', ''b'']\<rparr>])"
  using injectRequestParamsIntoCollection_frame [of 0 "[users_collection]" keys_request]
  by (simp add: injectRequestParamsIntoCollection_def withRequestParams_def Q_def
      keys_request_def users_collection_def)

section \<open>Model.CreateOrUpdate\<close>

lemma Create_trace:
  "trace (snd (Create self from w)) =
     trace w @ (case MakeRecord (collection self) from of
                  Inr r \<Rightarrow> [EvInsert (Name (collection self)) [r]]
                | Inl e \<Rightarrow> [])"
  by (simp add: Create_def call_simp split: sum.splits)

text \<open>
  C10. With a nil id, \<open>CreateOrUpdate\<close> is \<open>Create\<close>, and the only call it makes to the
  backend is the insert (none when the input is rejected): no existence check. With any
  other id it asks the backend whether the record exists, then performs \<open>Create\<close> when
  it does not and \<open>Update\<close> when it does.
\<close>

theorem CreateOrUpdate_dispatch:
  "(ident = VNil \<longrightarrow>
      CreateOrUpdate self ident from w = Create self from w
      \<and> trace (snd (CreateOrUpdate self ident from w)) =
          trace w @ (case MakeRecord (collection self) from of
                       Inr r \<Rightarrow> [EvInsert (Name (collection self)) [r]]
                     | Inl e \<Rightarrow> []))
   \<and> (ident \<noteq> VNil \<longrightarrow>
        (let name = Name (collection self);
             (found, s') = Exists (db self) name ident (backendState w);
             w1 = \<lparr>backendState = s', trace = trace w @ [EvExists name ident]\<rparr>
         in CreateOrUpdate self ident from w =
              (if found then Model_Update self from w1 else Create self from w1)))"
  by (simp add: CreateOrUpdate_def Create_trace Model_Exists_def call_simp Let_def
      split: prod.splits)

theorem CreateOrUpdate_dispatch_witness:
  "CreateOrUpdate \<lparr>db = memory_backend, collection = users_collection\<rparr> VNil ada_struct
       \<lparr>backendState = [users_collection], trace = []\<rparr>
     = (None, \<lparr>backendState = [users_collection],
              trace = [EvInsert ''users''
                         [\<lparr>ID = VNil, RFields = [''name'' \<mapsto> VStr ''ada'']\<rparr>]]\<rparr>)
   \<and> CreateOrUpdate \<lparr>db = memory_backend, collection = users_collection\<rparr> (VInt 1) ada_struct
       \<lparr>backendState = [users_collection], trace = []\<rparr>
     = (None, \<lparr>backendState = [users_collection],
              trace = [EvExists ''users'' (VInt 1),
                       EvUpdate ''users''
                         [\<lparr>ID = VNil, RFields = [''name'' \<mapsto> VStr ''ada'']\<rparr>]]\<rparr>)
   \<and> CreateOrUpdate \<lparr>db = memory_backend, collection = users_collection\<rparr> (VInt 2) ada_struct
       \<lparr>backendState = [users_collection], trace = []\<rparr>
     = (None, \<lparr>backendState = [users_collection],
              trace = [EvExists ''users'' (VInt 2),
                       EvInsert ''users''
                         [\<lparr>ID = VNil, RFields = [''name'' \<mapsto> VStr ''ada'']\<rparr>]]\<rparr>)"
  using CreateOrUpdate_dispatch
    [of VNil "\<lparr>db = memory_backend, collection = users_collection\<rparr>" ada_struct
        "\<lparr>backendState = [users_collection], trace = []\<rparr>"]
    CreateOrUpdate_dispatch
    [of "VInt 1" "\<lparr>db = memory_backend, collection = users_collection\<rparr>" ada_struct
        "\<lparr>backendState = [users_collection], trace = []\<rparr>"]
    CreateOrUpdate_dispatch
    [of "VInt 2" "\<lparr>db = memory_backend, collection = users_collection\<rparr>" ada_struct
        "\<lparr>backendState = [users_collection], trace = []\<rparr>"]
  by (simp add: Create_def Model_Update_def call_simp MakeRecord_def ada_struct_def
      users_collection_def memory_backend_def NewRecord_def Set_field_def
      MakeRecord_identityField_def MakeRecord_fieldNamedID_def Let_def)

end
